theory Spec2Isabelle
  imports Main "HOL-Library.Word"
begin

unbundle bit_operations_syntax

section \<open>Python values and containers\<close>

text \<open>
  The repository is one Python file that holds several successive drafts of the same
  CHIP-8 interpreter.  Three of them are complete engines and are embedded here:
  \<^item> the plain engine (lines 1-287): class \<open>Chip8\<close> whose \<open>tick\<close> is one \<open>if/elif\<close> chain;
  \<^item> the table engine (lines 290-823): class \<open>Chip8\<close> with the \<open>op_*\<close> handlers, the
    dispatch table \<open>self.opcodes\<close>, \<open>tick\<close> and \<open>_timer_tick\<close>;
  \<^item> the guarded engine (lines 1537-2066): class \<open>Chip8\<close> with \<open>cycle\<close>, \<open>_cpu_tick\<close>,
    \<open>load_rom\<close> and the handlers \<open>_1nnn\<close>, \<open>_2nnn\<close>, ...

  Python integers are unbounded: they are \<open>int\<close>.  \<open>&\<close>, \<open>|\<close>, \<open>^\<close>, \<open><<\<close>, \<open>>>\<close> are
  \<open>AND\<close>, \<open>OR\<close>, \<open>XOR\<close>, \<open>push_bit\<close>, \<open>drop_bit\<close>; \<open>//\<close> and \<open>%\<close> are \<open>div\<close> and \<open>mod\<close>
  (both round towards minus infinity).  An exception is a value \<open>Inl e\<close>.
\<close>

datatype error =
    IndexError
  | ValueError
  | PC_out_of_bounds int
  | Stack_underflow_on_00EE
  | Stack_overflow_on_CALL

definition bnd :: "'e + 'a \<Rightarrow> ('a \<Rightarrow> 'e + 'b) \<Rightarrow> 'e + 'b" where
  "bnd m f = (case m of Inl e \<Rightarrow> Inl e | Inr v \<Rightarrow> f v)"

text \<open>Indexing a list: a negative index counts from the end, anything else out of range raises.\<close>

definition norm_index :: "'a list \<Rightarrow> int \<Rightarrow> nat option" where
  "norm_index xs i =
     (let n = int (length xs); j = (if i < 0 then i + n else i)
      in if 0 \<le> j \<and> j < n then Some (nat j) else None)"

definition getitem :: "'a list \<Rightarrow> int \<Rightarrow> error + 'a" where
  "getitem xs i = (case norm_index xs i of None \<Rightarrow> Inl IndexError | Some j \<Rightarrow> Inr (xs ! j))"

definition setitem :: "'a list \<Rightarrow> int \<Rightarrow> 'a \<Rightarrow> error + 'a list" where
  "setitem xs i v = (case norm_index xs i of None \<Rightarrow> Inl IndexError | Some j \<Rightarrow> Inr (xs[j := v]))"

text \<open>
  Item assignment to a \<open>bytearray\<close>: the value must be in \<open>range(0, 256)\<close>, else ValueError.
\<close>

definition setbyte :: "int list \<Rightarrow> int \<Rightarrow> int \<Rightarrow> error + int list" where
  "setbyte xs i v = (if 0 \<le> v \<and> v < 256 then setitem xs i v else Inl ValueError)"

text \<open>A slice bound \<open>xs[i:...]\<close>: negative bounds count from the end, and all bounds are clipped.\<close>

definition slice_bound :: "nat \<Rightarrow> int \<Rightarrow> nat" where
  "slice_bound n i = (if i < 0 then nat (i + int n) else min n (nat i))"

definition getslice :: "'a list \<Rightarrow> int \<Rightarrow> int \<Rightarrow> 'a list" where
  "getslice xs i j =
     (let a = slice_bound (length xs) i; b = slice_bound (length xs) j
      in take (b - a) (drop a xs))"

definition setslice :: "'a list \<Rightarrow> int \<Rightarrow> int \<Rightarrow> 'a list \<Rightarrow> 'a list" where
  "setslice xs i j vs =
     (let a = slice_bound (length xs) i; b = max a (slice_bound (length xs) j)
      in take a xs @ vs @ drop b xs)"

definition FONTSET :: "int list" where
  "FONTSET =
     [0xF0, 0x90, 0x90, 0x90, 0xF0,
      0x20, 0x60, 0x20, 0x20, 0x70,
      0xF0, 0x10, 0xF0, 0x80, 0xF0,
      0xF0, 0x10, 0xF0, 0x10, 0xF0,
      0x90, 0x90, 0xF0, 0x10, 0x10,
      0xF0, 0x80, 0xF0, 0x10, 0xF0,
      0xF0, 0x80, 0xF0, 0x90, 0xF0,
      0xF0, 0x10, 0x20, 0x40, 0x40,
      0xF0, 0x90, 0xF0, 0x90, 0xF0,
      0xF0, 0x90, 0xF0, 0x10, 0xF0,
      0xF0, 0x90, 0xF0, 0x90, 0x90,
      0xE0, 0x90, 0xE0, 0x90, 0xE0,
      0xF0, 0x80, 0x80, 0x80, 0xF0,
      0xE0, 0x90, 0x90, 0x90, 0xE0,
      0xF0, 0x80, 0xF0, 0x80, 0xF0,
      0xF0, 0x80, 0xF0, 0x80, 0x80]"

text \<open>A memory of 4096 zero bytes with the font set in its first 80 bytes.\<close>

definition blank :: "int list" where
  "blank = FONTSET @ replicate (4096 - 80) 0"

section \<open>State\<close>

text \<open>
  The attributes that all three engines have under the same name come first; each engine
  extends them with its own.  (Window, image, label and clock attributes belong to pyglet
  and are left out.)
\<close>

record machine =
  memory :: "int list"
  pc :: int
  stack :: "int list"
  should_draw :: bool

text \<open>The plain engine (\<open>Chip8.__init__\<close>, lines 59-69).\<close>

record chip8 = machine +
  vram :: "int list"
  V :: "int list"
  I :: int
  keys :: "int list"
  delay :: int
  sound :: int

section \<open>The sprite loop\<close>

text \<open>
  The body of DRW is the same text in the plain engine (lines 186-197) and in the table
  engine's \<open>op_DRW\<close> (lines 662-671):
  \<^verbatim>\<open>
    for row in range(n):
        sprite = self.memory[self.I + row]
        for bit in range(8):
            if sprite & (0x80 >> bit):
                vx = (px + bit) % 64
                vy = (py + row) % 32
                index = vx + vy * 64
                if self.vram[index] == 1:
                    self.V[0xF] = 1
                self.vram[index] ^= 1
  \<close>
  The only difference is the type of \<open>vram\<close>: a list in the plain engine, a \<open>bytearray\<close> in
  the table engine.  The loop takes the store operation as its first argument.
\<close>

type_synonym store = "int list \<Rightarrow> int \<Rightarrow> int \<Rightarrow> error + int list"

definition plot :: "store \<Rightarrow> int \<Rightarrow> int list \<times> int list \<Rightarrow> error + int list \<times> int list" where
  "plot st index acc =
     (case acc of (vr, v) \<Rightarrow>
        bnd (getitem vr index) (\<lambda>c.
        bnd (if c = 1 then setitem v 0xF 1 else Inr v) (\<lambda>v'.
        bnd (st vr index (c XOR 1)) (\<lambda>vr'. Inr (vr', v')))))"

fun draw_bits :: "store \<Rightarrow> int \<Rightarrow> int \<Rightarrow> int \<Rightarrow> int \<Rightarrow> nat list \<Rightarrow> int list \<times> int list
    \<Rightarrow> error + int list \<times> int list" where
  "draw_bits st sprite px py row [] acc = Inr acc"
| "draw_bits st sprite px py row (b # bits) acc =
     (if sprite AND drop_bit b 0x80 \<noteq> 0 then
        (let vx = (px + int b) mod 64;
             vy = (py + row) mod 32;
             index = vx + vy * 64
         in bnd (plot st index acc) (draw_bits st sprite px py row bits))
      else draw_bits st sprite px py row bits acc)"

fun draw_rows :: "store \<Rightarrow> int list \<Rightarrow> int \<Rightarrow> int \<Rightarrow> int \<Rightarrow> nat list \<Rightarrow> int list \<times> int list
    \<Rightarrow> error + int list \<times> int list" where
  "draw_rows st mem i px py [] acc = Inr acc"
| "draw_rows st mem i px py (row # rows) acc =
     bnd (getitem mem (i + int row)) (\<lambda>sprite.
     bnd (draw_bits st sprite px py (int row) [0..<8] acc) (draw_rows st mem i px py rows))"

section \<open>The plain engine\<close>

text \<open>\<open>Chip8.__init__\<close> (lines 59-78): the state after the font set and the ROM are loaded.\<close>

fun load_bytes :: "int list \<Rightarrow> int \<Rightarrow> int list \<Rightarrow> error + int list" where
  "load_bytes mem i [] = Inr mem"
| "load_bytes mem i (b # bs) = bnd (setitem mem (0x200 + i) b) (\<lambda>mem'. load_bytes mem' (i + 1) bs)"

definition init :: "int list \<Rightarrow> error + chip8" where
  "init rom =
     bnd (load_bytes blank 0 rom) (\<lambda>mem.
       Inr \<lparr> memory = mem, pc = 0x200, stack = [], should_draw = True,
             vram = replicate (64 * 32) 0, V = replicate 16 0, I = 0,
             keys = replicate 16 0, delay = 0, sound = 0 \<rparr>)"

text \<open>The fetch, line 98: \<open>opcode = self.memory[self.pc] << 8 | self.memory[self.pc + 1]\<close>.\<close>

definition fetch :: "int list \<Rightarrow> int \<Rightarrow> error + int" where
  "fetch mem p =
     bnd (getitem mem p) (\<lambda>hi.
     bnd (getitem mem (p + 1)) (\<lambda>lo. Inr (push_bit 8 hi OR lo)))"

text \<open>The loop of WAIT KEY: the first index in \<open>range(16)\<close> whose key is truthy.\<close>

fun first_key :: "int list \<Rightarrow> nat list \<Rightarrow> error + nat option" where
  "first_key ks [] = Inr None"
| "first_key ks (i # is) =
     bnd (getitem ks (int i)) (\<lambda>k. if k \<noteq> 0 then Inr (Some i) else first_key ks is)"

text \<open>The loops of STORE and LOAD (lines 236-242).\<close>

fun store_regs :: "int list \<Rightarrow> int \<Rightarrow> nat list \<Rightarrow> int list \<Rightarrow> error + int list" where
  "store_regs v i [] mem = Inr mem"
| "store_regs v i (k # ks) mem =
     bnd (getitem v (int k)) (\<lambda>r.
     bnd (setitem mem (i + int k) r) (store_regs v i ks))"

fun load_regs :: "int list \<Rightarrow> int \<Rightarrow> nat list \<Rightarrow> int list \<Rightarrow> error + int list" where
  "load_regs mem i [] v = Inr v"
| "load_regs mem i (k # ks) v =
     bnd (getitem mem (i + int k)) (\<lambda>b.
     bnd (setitem v (int k) b) (load_regs mem i ks))"

text \<open>
  A branch of \<open>tick\<close> either falls through to the timer block at the end of the method
  (\<open>Next\<close>) or leaves the method with \<open>return\<close> (\<open>Return\<close>, only in WAIT KEY).
\<close>

datatype 'a flow = Next 'a | Return 'a

definition skip_if :: "bool \<Rightarrow> chip8 \<Rightarrow> error + chip8 flow" where
  "skip_if b s = Inr (Next (if b then s\<lparr>pc := pc s + 2\<rparr> else s))"

definition set_V :: "int \<Rightarrow> int \<Rightarrow> 'a chip8_scheme \<Rightarrow> error + 'a chip8_scheme" where
  "set_V i v s = bnd (setitem (V s) i v) (\<lambda>v'. Inr (s\<lparr>V := v'\<rparr>))"

definition execute :: "int \<Rightarrow> chip8 \<Rightarrow> error + chip8 flow" where
  "execute opcode s =
    (let nnn = opcode AND 0x0FFF;
         n = opcode AND 0x000F;
         x = drop_bit 8 opcode AND 0xF;
         y = drop_bit 4 opcode AND 0xF;
         kk = opcode AND 0xFF
     in
     if opcode = 0x00E0 then
       Inr (Next (s\<lparr>vram := replicate (64 * 32) 0, should_draw := True\<rparr>))
     else if opcode = 0x00EE then
       (if stack s = [] then Inl IndexError
        else Inr (Next (s\<lparr>pc := last (stack s), stack := butlast (stack s)\<rparr>)))
     else if opcode AND 0xF000 = 0x1000 then
       Inr (Next (s\<lparr>pc := nnn\<rparr>))
     else if opcode AND 0xF000 = 0x2000 then
       Inr (Next (s\<lparr>stack := stack s @ [pc s], pc := nnn\<rparr>))
     else if opcode AND 0xF000 = 0x3000 then
       bnd (getitem (V s) x) (\<lambda>a. skip_if (a = kk) s)
     else if opcode AND 0xF000 = 0x4000 then
       bnd (getitem (V s) x) (\<lambda>a. skip_if (a \<noteq> kk) s)
     else if opcode AND 0xF00F = 0x5000 then
       bnd (getitem (V s) x) (\<lambda>a. bnd (getitem (V s) y) (\<lambda>b. skip_if (a = b) s))
     else if opcode AND 0xF000 = 0x6000 then
       bnd (set_V x kk s) (\<lambda>s. Inr (Next s))
     else if opcode AND 0xF000 = 0x7000 then
       bnd (getitem (V s) x) (\<lambda>a.
       bnd (set_V x ((a + kk) AND 0xFF) s) (\<lambda>s. Inr (Next s)))
     else if opcode AND 0xF00F = 0x8000 then
       bnd (getitem (V s) y) (\<lambda>b.
       bnd (set_V x b s) (\<lambda>s. Inr (Next s)))
     else if opcode AND 0xF00F = 0x8001 then
       bnd (getitem (V s) x) (\<lambda>a. bnd (getitem (V s) y) (\<lambda>b.
       bnd (set_V x (a OR b) s) (\<lambda>s. Inr (Next s))))
     else if opcode AND 0xF00F = 0x8002 then
       bnd (getitem (V s) x) (\<lambda>a. bnd (getitem (V s) y) (\<lambda>b.
       bnd (set_V x (a AND b) s) (\<lambda>s. Inr (Next s))))
     else if opcode AND 0xF00F = 0x8003 then
       bnd (getitem (V s) x) (\<lambda>a. bnd (getitem (V s) y) (\<lambda>b.
       bnd (set_V x (a XOR b) s) (\<lambda>s. Inr (Next s))))
     else if opcode AND 0xF00F = 0x8004 then
       bnd (getitem (V s) x) (\<lambda>a. bnd (getitem (V s) y) (\<lambda>b.
       let total = a + b in
       bnd (set_V 0xF (if total > 0xFF then 1 else 0) s) (\<lambda>s.
       bnd (set_V x (total AND 0xFF) s) (\<lambda>s. Inr (Next s)))))
     else if opcode AND 0xF00F = 0x8005 then
       bnd (getitem (V s) x) (\<lambda>a. bnd (getitem (V s) y) (\<lambda>b.
       bnd (set_V 0xF (if a > b then 1 else 0) s) (\<lambda>s.
       bnd (getitem (V s) x) (\<lambda>a. bnd (getitem (V s) y) (\<lambda>b.
       bnd (set_V x ((a - b) AND 0xFF) s) (\<lambda>s. Inr (Next s)))))))
     else if opcode AND 0xF00F = 0x8006 then
       bnd (getitem (V s) x) (\<lambda>a.
       bnd (set_V 0xF (a AND 1) s) (\<lambda>s.
       bnd (getitem (V s) x) (\<lambda>a.
       bnd (set_V x (drop_bit 1 a) s) (\<lambda>s. Inr (Next s)))))
     else if opcode AND 0xF00F = 0x8007 then
       bnd (getitem (V s) y) (\<lambda>b. bnd (getitem (V s) x) (\<lambda>a.
       bnd (set_V 0xF (if b > a then 1 else 0) s) (\<lambda>s.
       bnd (getitem (V s) y) (\<lambda>b. bnd (getitem (V s) x) (\<lambda>a.
       bnd (set_V x ((b - a) AND 0xFF) s) (\<lambda>s. Inr (Next s)))))))
     else if opcode AND 0xF00F = 0x800E then
       bnd (getitem (V s) x) (\<lambda>a.
       bnd (set_V 0xF (drop_bit 7 a AND 1) s) (\<lambda>s.
       bnd (getitem (V s) x) (\<lambda>a.
       bnd (set_V x (push_bit 1 a AND 0xFF) s) (\<lambda>s. Inr (Next s)))))
     else if opcode AND 0xF00F = 0x9000 then
       bnd (getitem (V s) x) (\<lambda>a. bnd (getitem (V s) y) (\<lambda>b. skip_if (a \<noteq> b) s))
     else if opcode AND 0xF000 = 0xA000 then
       Inr (Next (s\<lparr>I := nnn\<rparr>))
     else if opcode AND 0xF000 = 0xD000 then
       bnd (getitem (V s) x) (\<lambda>px. bnd (getitem (V s) y) (\<lambda>py.
       bnd (setitem (V s) 0xF 0) (\<lambda>v0.
       bnd (draw_rows setitem (memory s) (I s) px py [0..<nat n] (vram s, v0)) (\<lambda>(vr, v).
         Inr (Next (s\<lparr>vram := vr, V := v, should_draw := True\<rparr>))))))
     else if opcode AND 0xF0FF = 0xE09E then
       bnd (getitem (V s) x) (\<lambda>a. bnd (getitem (keys s) a) (\<lambda>k. skip_if (k \<noteq> 0) s))
     else if opcode AND 0xF0FF = 0xE0A1 then
       bnd (getitem (V s) x) (\<lambda>a. bnd (getitem (keys s) a) (\<lambda>k. skip_if (\<not> k \<noteq> 0) s))
     else if opcode AND 0xF0FF = 0xF007 then
       bnd (set_V x (delay s) s) (\<lambda>s. Inr (Next s))
     else if opcode AND 0xF0FF = 0xF00A then
       bnd (first_key (keys s) [0..<16]) (\<lambda>r.
         case r of
           Some i \<Rightarrow> bnd (set_V x (int i) s) (\<lambda>s. Inr (Return s))
         | None \<Rightarrow> Inr (Next (s\<lparr>pc := pc s - 2\<rparr>)))
     else if opcode AND 0xF0FF = 0xF015 then
       bnd (getitem (V s) x) (\<lambda>a. Inr (Next (s\<lparr>delay := a\<rparr>)))
     else if opcode AND 0xF0FF = 0xF018 then
       bnd (getitem (V s) x) (\<lambda>a. Inr (Next (s\<lparr>sound := a\<rparr>)))
     else if opcode AND 0xF0FF = 0xF01E then
       bnd (getitem (V s) x) (\<lambda>a. Inr (Next (s\<lparr>I := (I s + a) AND 0xFFF\<rparr>)))
     else if opcode AND 0xF0FF = 0xF029 then
       bnd (getitem (V s) x) (\<lambda>a. Inr (Next (s\<lparr>I := a * 5\<rparr>)))
     else if opcode AND 0xF0FF = 0xF033 then
       bnd (getitem (V s) x) (\<lambda>v.
       bnd (setitem (memory s) (I s) (v div 100)) (\<lambda>m.
       bnd (setitem m (I s + 1) ((v div 10) mod 10)) (\<lambda>m.
       bnd (setitem m (I s + 2) (v mod 10)) (\<lambda>m. Inr (Next (s\<lparr>memory := m\<rparr>))))))
     else if opcode AND 0xF0FF = 0xF055 then
       bnd (store_regs (V s) (I s) [0..<nat (x + 1)] (memory s)) (\<lambda>m.
         Inr (Next (s\<lparr>memory := m\<rparr>)))
     else if opcode AND 0xF0FF = 0xF065 then
       bnd (load_regs (memory s) (I s) [0..<nat (x + 1)] (V s)) (\<lambda>v.
         Inr (Next (s\<lparr>V := v\<rparr>)))
     else Inr (Next s))"

text \<open>The timer block at the end of \<open>tick\<close> (lines 245-249).\<close>

definition timers :: "chip8 \<Rightarrow> chip8" where
  "timers s =
     (let s1 = (if delay s > 0 then s\<lparr>delay := delay s - 1\<rparr> else s)
      in if sound s1 > 0 then s1\<lparr>sound := sound s1 - 1\<rparr> else s1)"

definition tick :: "chip8 \<Rightarrow> error + chip8" where
  "tick s =
     bnd (fetch (memory s) (pc s)) (\<lambda>opcode.
     bnd (execute opcode (s\<lparr>pc := pc s + 2\<rparr>)) (\<lambda>r.
       case r of Next s' \<Rightarrow> Inr (timers s') | Return s' \<Rightarrow> Inr s'))"

section \<open>The table engine\<close>

text \<open>
  \<open>Chip8.__init__\<close> of the table engine (lines 390-407): \<open>memory\<close> and \<open>vram\<close> are
  \<open>bytearray\<close>s, \<open>stack\<close> is \<open>np.zeros(16, dtype=np.uint16)\<close> with the stack pointer \<open>sp\<close>,
  \<open>keys\<close> is an array of \<open>np.uint8\<close> and \<open>pc\<close> is kept as \<open>np.uint16\<close>.  \<open>printed\<close> collects
  the opcodes that \<open>tick\<close> reports with \<open>print(f"Unknown opcode: {opcode:04X}")\<close>.
\<close>

record chip8_np = chip8 +
  sp :: int
  sound_playing :: bool
  cps_counter :: int
  printed :: "int list"

definition uint16 :: "int \<Rightarrow> int" where
  "uint16 k = k mod 65536"

definition init_np :: "int list \<Rightarrow> chip8_np" where
  "init_np rom =
     \<lparr> memory = setslice (setslice (replicate 4096 0) 0 (int (length FONTSET)) FONTSET)
                0x200 (0x200 + int (length rom)) rom,
       pc = 0x200, stack = replicate 16 0, should_draw = True,
       vram = replicate (64 * 32) 0, V = replicate 16 0, I = 0,
       keys = replicate 16 0, delay = 0, sound = 0,
       sp = 0, sound_playing = True, cps_counter = 0, printed = [] \<rparr>"

definition op_CLS :: "int \<Rightarrow> chip8_np \<Rightarrow> error + chip8_np" where
  "op_CLS opcode s = Inr (s\<lparr>vram := replicate (length (vram s)) 0, should_draw := True\<rparr>)"

definition op_RET :: "int \<Rightarrow> chip8_np \<Rightarrow> error + chip8_np" where
  "op_RET opcode s =
     (if sp s = 0 then Inr (s\<lparr>pc := uint16 0x200\<rparr>)
      else bnd (getitem (stack s) (sp s - 1)) (\<lambda>a. Inr (s\<lparr>sp := sp s - 1, pc := a\<rparr>)))"

definition op_JP :: "int \<Rightarrow> chip8_np \<Rightarrow> error + chip8_np" where
  "op_JP opcode s = Inr (s\<lparr>pc := uint16 (opcode AND 0x0FFF)\<rparr>)"

definition op_CALL :: "int \<Rightarrow> chip8_np \<Rightarrow> error + chip8_np" where
  "op_CALL opcode s =
     bnd (if sp s < 16
          then bnd (setitem (stack s) (sp s) (pc s)) (\<lambda>st. Inr (s\<lparr>stack := st, sp := sp s + 1\<rparr>))
          else Inr s) (\<lambda>s.
     Inr (s\<lparr>pc := uint16 (opcode AND 0x0FFF)\<rparr>))"

definition skip_np :: "bool \<Rightarrow> chip8_np \<Rightarrow> error + chip8_np" where
  "skip_np b s = Inr (if b then s\<lparr>pc := uint16 (pc s + 2)\<rparr> else s)"

definition op_SE_Vx_kk :: "int \<Rightarrow> chip8_np \<Rightarrow> error + chip8_np" where
  "op_SE_Vx_kk opcode s =
     (let x = drop_bit 8 opcode AND 0xF; kk = opcode AND 0xFF
      in bnd (getitem (V s) x) (\<lambda>a. skip_np (a = kk) s))"

definition op_SNE_Vx_kk :: "int \<Rightarrow> chip8_np \<Rightarrow> error + chip8_np" where
  "op_SNE_Vx_kk opcode s =
     (let x = drop_bit 8 opcode AND 0xF; kk = opcode AND 0xFF
      in bnd (getitem (V s) x) (\<lambda>a. skip_np (a \<noteq> kk) s))"

definition op_SE_Vx_Vy :: "int \<Rightarrow> chip8_np \<Rightarrow> error + chip8_np" where
  "op_SE_Vx_Vy opcode s =
     (let x = drop_bit 8 opcode AND 0xF; y = drop_bit 4 opcode AND 0xF
      in bnd (getitem (V s) x) (\<lambda>a. bnd (getitem (V s) y) (\<lambda>b. skip_np (a = b) s)))"

definition op_LD_Vx_kk :: "int \<Rightarrow> chip8_np \<Rightarrow> error + chip8_np" where
  "op_LD_Vx_kk opcode s =
     (let x = drop_bit 8 opcode AND 0xF in set_V x (opcode AND 0xFF) s)"

definition op_ADD_Vx_kk :: "int \<Rightarrow> chip8_np \<Rightarrow> error + chip8_np" where
  "op_ADD_Vx_kk opcode s =
     (let x = drop_bit 8 opcode AND 0xF; kk = opcode AND 0xFF
      in bnd (getitem (V s) x) (\<lambda>a. set_V x ((a + kk) AND 0xFF) s))"

definition op_LD_Vx_Vy :: "int \<Rightarrow> chip8_np \<Rightarrow> error + chip8_np" where
  "op_LD_Vx_Vy opcode s =
     (let x = drop_bit 8 opcode AND 0xF; y = drop_bit 4 opcode AND 0xF
      in bnd (getitem (V s) y) (\<lambda>b. set_V x b s))"

definition op_OR :: "int \<Rightarrow> chip8_np \<Rightarrow> error + chip8_np" where
  "op_OR opcode s =
     (let x = drop_bit 8 opcode AND 0xF; y = drop_bit 4 opcode AND 0xF
      in bnd (getitem (V s) x) (\<lambda>a. bnd (getitem (V s) y) (\<lambda>b. set_V x (a OR b) s)))"

definition op_AND :: "int \<Rightarrow> chip8_np \<Rightarrow> error + chip8_np" where
  "op_AND opcode s =
     (let x = drop_bit 8 opcode AND 0xF; y = drop_bit 4 opcode AND 0xF
      in bnd (getitem (V s) x) (\<lambda>a. bnd (getitem (V s) y) (\<lambda>b. set_V x (a AND b) s)))"

definition op_XOR :: "int \<Rightarrow> chip8_np \<Rightarrow> error + chip8_np" where
  "op_XOR opcode s =
     (let x = drop_bit 8 opcode AND 0xF; y = drop_bit 4 opcode AND 0xF
      in bnd (getitem (V s) x) (\<lambda>a. bnd (getitem (V s) y) (\<lambda>b. set_V x (a XOR b) s)))"

definition op_ADD :: "int \<Rightarrow> chip8_np \<Rightarrow> error + chip8_np" where
  "op_ADD opcode s =
     (let x = drop_bit 8 opcode AND 0xF; y = drop_bit 4 opcode AND 0xF
      in bnd (getitem (V s) x) (\<lambda>a. bnd (getitem (V s) y) (\<lambda>b.
         let total = a + b in
         bnd (set_V 0xF (if total > 0xFF then 1 else 0) s) (\<lambda>s.
         set_V x (total AND 0xFF) s))))"

definition op_SUB :: "int \<Rightarrow> chip8_np \<Rightarrow> error + chip8_np" where
  "op_SUB opcode s =
     (let x = drop_bit 8 opcode AND 0xF; y = drop_bit 4 opcode AND 0xF
      in bnd (getitem (V s) x) (\<lambda>a. bnd (getitem (V s) y) (\<lambda>b.
         bnd (set_V 0xF (if a > b then 1 else 0) s) (\<lambda>s.
         bnd (getitem (V s) x) (\<lambda>a. bnd (getitem (V s) y) (\<lambda>b.
         set_V x ((a - b) AND 0xFF) s))))))"

definition op_SHR :: "int \<Rightarrow> chip8_np \<Rightarrow> error + chip8_np" where
  "op_SHR opcode s =
     (let x = drop_bit 8 opcode AND 0xF
      in bnd (getitem (V s) x) (\<lambda>a.
         bnd (set_V 0xF (a AND 1) s) (\<lambda>s.
         bnd (getitem (V s) x) (\<lambda>a.
         set_V x (drop_bit 1 a) s))))"

definition op_SUBN :: "int \<Rightarrow> chip8_np \<Rightarrow> error + chip8_np" where
  "op_SUBN opcode s =
     (let x = drop_bit 8 opcode AND 0xF; y = drop_bit 4 opcode AND 0xF
      in bnd (getitem (V s) y) (\<lambda>b. bnd (getitem (V s) x) (\<lambda>a.
         bnd (set_V 0xF (if b > a then 1 else 0) s) (\<lambda>s.
         bnd (getitem (V s) y) (\<lambda>b. bnd (getitem (V s) x) (\<lambda>a.
         set_V x ((b - a) AND 0xFF) s))))))"

definition op_SHL :: "int \<Rightarrow> chip8_np \<Rightarrow> error + chip8_np" where
  "op_SHL opcode s =
     (let x = drop_bit 8 opcode AND 0xF
      in bnd (getitem (V s) x) (\<lambda>a.
         bnd (set_V 0xF (drop_bit 7 a AND 1) s) (\<lambda>s.
         bnd (getitem (V s) x) (\<lambda>a.
         set_V x (push_bit 1 a AND 0xFF) s))))"

definition op_SNE_Vx_Vy :: "int \<Rightarrow> chip8_np \<Rightarrow> error + chip8_np" where
  "op_SNE_Vx_Vy opcode s =
     (let x = drop_bit 8 opcode AND 0xF; y = drop_bit 4 opcode AND 0xF
      in bnd (getitem (V s) x) (\<lambda>a. bnd (getitem (V s) y) (\<lambda>b. skip_np (a \<noteq> b) s)))"

definition op_LD_I :: "int \<Rightarrow> chip8_np \<Rightarrow> error + chip8_np" where
  "op_LD_I opcode s = Inr (s\<lparr>I := uint16 (opcode AND 0x0FFF)\<rparr>)"

definition op_DRW :: "int \<Rightarrow> chip8_np \<Rightarrow> error + chip8_np" where
  "op_DRW opcode s =
     (let x = drop_bit 8 opcode AND 0xF; y = drop_bit 4 opcode AND 0xF; n = opcode AND 0xF
      in bnd (getitem (V s) x) (\<lambda>px. bnd (getitem (V s) y) (\<lambda>py.
         bnd (setitem (V s) 0xF 0) (\<lambda>v0.
         bnd (draw_rows setbyte (memory s) (I s) px py [0..<nat n] (vram s, v0)) (\<lambda>(vr, v).
           Inr (s\<lparr>vram := vr, V := v, should_draw := True\<rparr>))))))"

definition op_SKP :: "int \<Rightarrow> chip8_np \<Rightarrow> error + chip8_np" where
  "op_SKP opcode s =
     (let x = drop_bit 8 opcode AND 0xF
      in bnd (getitem (V s) x) (\<lambda>a. bnd (getitem (keys s) a) (\<lambda>k. skip_np (k \<noteq> 0) s)))"

definition op_SKNP :: "int \<Rightarrow> chip8_np \<Rightarrow> error + chip8_np" where
  "op_SKNP opcode s =
     (let x = drop_bit 8 opcode AND 0xF
      in bnd (getitem (V s) x) (\<lambda>a. bnd (getitem (keys s) a) (\<lambda>k. skip_np (\<not> k \<noteq> 0) s)))"

definition op_LD_Vx_DT :: "int \<Rightarrow> chip8_np \<Rightarrow> error + chip8_np" where
  "op_LD_Vx_DT opcode s = (let x = drop_bit 8 opcode AND 0xF in set_V x (delay s) s)"

definition op_WAITKEY :: "int \<Rightarrow> chip8_np \<Rightarrow> error + chip8_np" where
  "op_WAITKEY opcode s =
     (let x = drop_bit 8 opcode AND 0xF
      in bnd (first_key (keys s) [0..<16]) (\<lambda>r.
           case r of
             Some i \<Rightarrow> set_V x (int i) s
           | None \<Rightarrow> Inr (s\<lparr>pc := uint16 (pc s - 2)\<rparr>)))"

definition op_LD_DT_Vx :: "int \<Rightarrow> chip8_np \<Rightarrow> error + chip8_np" where
  "op_LD_DT_Vx opcode s =
     (let x = drop_bit 8 opcode AND 0xF in bnd (getitem (V s) x) (\<lambda>a. Inr (s\<lparr>delay := a\<rparr>)))"

definition op_LD_ST_Vx :: "int \<Rightarrow> chip8_np \<Rightarrow> error + chip8_np" where
  "op_LD_ST_Vx opcode s =
     (let x = drop_bit 8 opcode AND 0xF in bnd (getitem (V s) x) (\<lambda>a. Inr (s\<lparr>sound := a\<rparr>)))"

definition op_ADD_I_Vx :: "int \<Rightarrow> chip8_np \<Rightarrow> error + chip8_np" where
  "op_ADD_I_Vx opcode s =
     (let x = drop_bit 8 opcode AND 0xF
      in bnd (getitem (V s) x) (\<lambda>a. Inr (s\<lparr>I := (I s + a) AND 0xFFF\<rparr>)))"

definition op_FONT :: "int \<Rightarrow> chip8_np \<Rightarrow> error + chip8_np" where
  "op_FONT opcode s =
     (let x = drop_bit 8 opcode AND 0xF in bnd (getitem (V s) x) (\<lambda>a. Inr (s\<lparr>I := a * 5\<rparr>)))"

definition op_BCD :: "int \<Rightarrow> chip8_np \<Rightarrow> error + chip8_np" where
  "op_BCD opcode s =
     (let x = drop_bit 8 opcode AND 0xF
      in bnd (getitem (V s) x) (\<lambda>v.
         bnd (setbyte (memory s) (I s) (v div 100)) (\<lambda>m.
         bnd (setbyte m (I s + 1) ((v div 10) mod 10)) (\<lambda>m.
         bnd (setbyte m (I s + 2) (v mod 10)) (\<lambda>m. Inr (s\<lparr>memory := m\<rparr>))))))"

text \<open>
  \<open>op_STORE\<close> and \<open>op_LOAD\<close> are slice assignments.  Assigning a list to a slice of a
  \<open>bytearray\<close> raises ValueError unless every element is in \<open>range(0, 256)\<close>; the slice is
  then replaced by the new bytes, whatever their number.
\<close>

definition op_STORE :: "int \<Rightarrow> chip8_np \<Rightarrow> error + chip8_np" where
  "op_STORE opcode s =
     (let x = drop_bit 8 opcode AND 0xF; vs = getslice (V s) 0 (x + 1)
      in if \<forall>v \<in> set vs. 0 \<le> v \<and> v < 256
         then Inr (s\<lparr>memory := setslice (memory s) (I s) (I s + x + 1) vs\<rparr>)
         else Inl ValueError)"

definition op_LOAD :: "int \<Rightarrow> chip8_np \<Rightarrow> error + chip8_np" where
  "op_LOAD opcode s =
     (let x = drop_bit 8 opcode AND 0xF
      in Inr (s\<lparr>V := setslice (V s) 0 (x + 1) (getslice (memory s) (I s) (I s + x + 1))\<rparr>))"

text \<open>\<open>random.randint(0, 255)\<close> is the argument \<open>r\<close>.\<close>

definition op_RND :: "int \<Rightarrow> int \<Rightarrow> chip8_np \<Rightarrow> error + chip8_np" where
  "op_RND r opcode s =
     (let x = drop_bit 8 opcode AND 0xF; kk = opcode AND 0xFF in set_V x (r AND kk) s)"

text \<open>The dispatch table \<open>self.opcodes\<close> (lines 476-513), in its order.\<close>

type_synonym handler = "int \<Rightarrow> chip8_np \<Rightarrow> error + chip8_np"

definition opcodes :: "int \<Rightarrow> (int \<times> int \<times> handler) list" where
  "opcodes r =
     [(0xFFFF, 0x00E0, op_CLS),
      (0xFFFF, 0x00EE, op_RET),
      (0xF000, 0x1000, op_JP),
      (0xF000, 0x2000, op_CALL),
      (0xF000, 0x3000, op_SE_Vx_kk),
      (0xF000, 0x4000, op_SNE_Vx_kk),
      (0xF00F, 0x5000, op_SE_Vx_Vy),
      (0xF000, 0x6000, op_LD_Vx_kk),
      (0xF000, 0x7000, op_ADD_Vx_kk),
      (0xF00F, 0x8000, op_LD_Vx_Vy),
      (0xF00F, 0x8001, op_OR),
      (0xF00F, 0x8002, op_AND),
      (0xF00F, 0x8003, op_XOR),
      (0xF00F, 0x8004, op_ADD),
      (0xF00F, 0x8005, op_SUB),
      (0xF00F, 0x8006, op_SHR),
      (0xF00F, 0x8007, op_SUBN),
      (0xF00F, 0x800E, op_SHL),
      (0xF00F, 0x9000, op_SNE_Vx_Vy),
      (0xF000, 0xA000, op_LD_I),
      (0xF000, 0xD000, op_DRW),
      (0xF0FF, 0xE09E, op_SKP),
      (0xF0FF, 0xE0A1, op_SKNP),
      (0xF0FF, 0xF007, op_LD_Vx_DT),
      (0xF0FF, 0xF00A, op_WAITKEY),
      (0xF0FF, 0xF015, op_LD_DT_Vx),
      (0xF0FF, 0xF018, op_LD_ST_Vx),
      (0xF0FF, 0xF01E, op_ADD_I_Vx),
      (0xF0FF, 0xF029, op_FONT),
      (0xF0FF, 0xF033, op_BCD),
      (0xF0FF, 0xF055, op_STORE),
      (0xF0FF, 0xF065, op_LOAD),
      (0xF000, 0xC000, op_RND r)]"

text \<open>
  \<open>tick\<close> of the table engine (lines 733-744): the first entry of the table whose pattern
  matches handles the opcode; when none matches the opcode is printed as unknown.
\<close>

fun dispatch :: "(int \<times> int \<times> handler) list \<Rightarrow> int \<Rightarrow> chip8_np \<Rightarrow> error + chip8_np" where
  "dispatch [] opcode s = Inr (s\<lparr>printed := printed s @ [opcode]\<rparr>)"
| "dispatch ((msk, pattern, handler) # rest) opcode s =
     (if opcode AND msk = pattern then handler opcode s else dispatch rest opcode s)"

definition tick_table :: "int \<Rightarrow> chip8_np \<Rightarrow> error + chip8_np" where
  "tick_table r s =
     (let s = s\<lparr>cps_counter := cps_counter s + 1\<rparr>
      in bnd (fetch (memory s) (pc s)) (\<lambda>opcode.
         dispatch (opcodes r) opcode (s\<lparr>pc := uint16 (pc s + 2)\<rparr>)))"

text \<open>\<open>_timer_tick\<close> (lines 804-813); \<open>_play_beep\<close> sets \<open>sound_playing\<close>.\<close>

definition timer_tick :: "chip8_np \<Rightarrow> chip8_np" where
  "timer_tick s =
     (let s = (if delay s > 0 then s\<lparr>delay := delay s - 1\<rparr> else s)
      in if sound s > 0
         then (let s = s\<lparr>sound := sound s - 1\<rparr>
               in if \<not> sound_playing s then s\<lparr>sound_playing := True\<rparr> else s)
         else s\<lparr>sound_playing := False\<rparr>)"

text \<open>
  The other callbacks that change the state: \<open>on_key_press\<close> and \<open>on_key_release\<close> with a
  mapped key \<open>k\<close> (\<open>keymap\<close> maps to \<open>0x0 .. 0xF\<close>), \<open>on_draw\<close>, and the end of a beep.
\<close>

definition on_key :: "nat \<Rightarrow> int \<Rightarrow> chip8_np \<Rightarrow> chip8_np" where
  "on_key k v s = s\<lparr>keys := (keys s)[k := v]\<rparr>"

inductive reachable :: "chip8_np \<Rightarrow> bool" where
  start: "\<forall>b \<in> set rom. 0 \<le> b \<and> b < 256 \<Longrightarrow> reachable (init_np rom)"
| cpu: "reachable s \<Longrightarrow> 0 \<le> r \<Longrightarrow> r \<le> 255 \<Longrightarrow> tick_table r s = Inr s' \<Longrightarrow> reachable s'"
| timer: "reachable s \<Longrightarrow> reachable (timer_tick s)"
| key_press: "reachable s \<Longrightarrow> k < 16 \<Longrightarrow> reachable (on_key k 1 s)"
| key_release: "reachable s \<Longrightarrow> k < 16 \<Longrightarrow> reachable (on_key k 0 s)"
| drawn: "reachable s \<Longrightarrow> reachable (s\<lparr>should_draw := False\<rparr>)"
| beep_end: "reachable s \<Longrightarrow> reachable (s\<lparr>sound_playing := False\<rparr>)"

section \<open>The guarded engine\<close>

text \<open>
  \<open>Chip8.__init__\<close> of the guarded engine (lines 1617-1634).  Its handlers read the
  instruction from the attributes \<open>opcode\<close>, \<open>vx\<close> and \<open>vy\<close> that \<open>cycle\<close> sets.
  \<open>log\<close> only prints (when \<open>logsOn\<close>) and is left out.
\<close>

record chip8_g = machine +
  gpio :: "int list"
  index :: int
  delay_timer :: int
  sound_timer :: int
  display_buffer :: "int list"
  key_inputs :: "int list"
  opcode :: int
  vx :: int
  vy :: int
  has_exit :: bool
  cycle_count :: int
  beeping :: bool

text \<open>
  \<open>beeping\<close> is the attribute \<open>sound_playing\<close> of this class.  The exceptions of \<open>cycle\<close>
  are caught by \<open>_cpu_tick\<close>, which goes on with the state that the exception left: an
  exception is a pair of the error and that state.
\<close>

type_synonym 'a res = "error \<times> chip8_g + 'a"

definition within :: "chip8_g \<Rightarrow> error + 'a \<Rightarrow> ('a \<Rightarrow> 'b res) \<Rightarrow> 'b res" where
  "within s m f = (case m of Inl e \<Rightarrow> Inl (e, s) | Inr v \<Rightarrow> f v)"

definition init_g :: chip8_g where
  "init_g =
     \<lparr> memory = blank, pc = 0x200, stack = [], should_draw = True,
       gpio = replicate 16 0, index = 0, delay_timer = 0, sound_timer = 0,
       display_buffer = replicate (64 * 32) 0, key_inputs = replicate 16 0,
       opcode = 0, vx = 0, vy = 0, has_exit = False, cycle_count = 0, beeping = False \<rparr>"

text \<open>\<open>load_rom\<close> (lines 1764-1770).\<close>

fun load_rom_loop :: "nat \<Rightarrow> int list \<Rightarrow> int list \<Rightarrow> error + int list" where
  "load_rom_loop i [] mem = Inr mem"
| "load_rom_loop i (b # bs) mem =
     (if 0x200 + int i < 4096
      then bnd (setitem mem (0x200 + int i) b) (load_rom_loop (Suc i) bs)
      else load_rom_loop (Suc i) bs mem)"

definition load_rom :: "int list \<Rightarrow> chip8_g \<Rightarrow> error + chip8_g" where
  "load_rom data s = bnd (load_rom_loop 0 data (memory s)) (\<lambda>m. Inr (s\<lparr>memory := m\<rparr>))"

definition set_gpio :: "int \<Rightarrow> int \<Rightarrow> chip8_g \<Rightarrow> chip8_g res" where
  "set_gpio i v s = within s (setitem (gpio s) i v) (\<lambda>g. Inr (s\<lparr>gpio := g\<rparr>))"

definition skip_g :: "bool \<Rightarrow> chip8_g \<Rightarrow> chip8_g res" where
  "skip_g b s = Inr (if b then s\<lparr>pc := (pc s + 2) AND 0xFFF\<rparr> else s)"

definition h_0nnn :: "chip8_g \<Rightarrow> chip8_g res" where
  "h_0nnn s = Inr s"

definition h_0E0 :: "chip8_g \<Rightarrow> chip8_g res" where
  "h_0E0 s = Inr (s\<lparr>display_buffer := replicate (64 * 32) 0, should_draw := True\<rparr>)"

definition h_00EE :: "chip8_g \<Rightarrow> chip8_g res" where
  "h_00EE s =
     (if stack s = [] then Inl (Stack_underflow_on_00EE, s)
      else Inr (s\<lparr>pc := last (stack s), stack := butlast (stack s)\<rparr>))"

definition h_1nnn :: "chip8_g \<Rightarrow> chip8_g res" where
  "h_1nnn s = Inr (s\<lparr>pc := (opcode s AND 0x0FFF) - 2\<rparr>)"

definition h_2nnn :: "chip8_g \<Rightarrow> chip8_g res" where
  "h_2nnn s =
     (if length (stack s) \<ge> 16 then Inl (Stack_overflow_on_CALL, s)
      else Inr (s\<lparr>stack := stack s @ [pc s], pc := (opcode s AND 0x0FFF) - 2\<rparr>))"

definition h_3xkk :: "chip8_g \<Rightarrow> chip8_g res" where
  "h_3xkk s =
     (let kk = opcode s AND 0xFF
      in within s (getitem (gpio s) (vx s)) (\<lambda>a. skip_g (a = kk) s))"

definition h_4xkk :: "chip8_g \<Rightarrow> chip8_g res" where
  "h_4xkk s =
     (let kk = opcode s AND 0xFF
      in within s (getitem (gpio s) (vx s)) (\<lambda>a. skip_g (a \<noteq> kk) s))"

definition h_5xy0 :: "chip8_g \<Rightarrow> chip8_g res" where
  "h_5xy0 s =
     (if opcode s AND 0xF \<noteq> 0 then Inr s
      else within s (getitem (gpio s) (vx s)) (\<lambda>a.
           within s (getitem (gpio s) (vy s)) (\<lambda>b. skip_g (a = b) s)))"

definition h_6xkk :: "chip8_g \<Rightarrow> chip8_g res" where
  "h_6xkk s = set_gpio (vx s) (opcode s AND 0xFF) s"

definition h_7xkk :: "chip8_g \<Rightarrow> chip8_g res" where
  "h_7xkk s =
     within s (getitem (gpio s) (vx s)) (\<lambda>a.
     set_gpio (vx s) ((a + (opcode s AND 0xFF)) AND 0xFF) s)"

definition h_8xxx :: "chip8_g \<Rightarrow> chip8_g res" where
  "h_8xxx s =
     (let x = vx s; y = vy s; sub = opcode s AND 0xF
      in
      if sub = 0x0 then
        within s (getitem (gpio s) y) (\<lambda>b. set_gpio x b s)
      else if sub = 0x1 then
        within s (getitem (gpio s) x) (\<lambda>a. within s (getitem (gpio s) y) (\<lambda>b.
        set_gpio x (a OR b) s))
      else if sub = 0x2 then
        within s (getitem (gpio s) x) (\<lambda>a. within s (getitem (gpio s) y) (\<lambda>b.
        set_gpio x (a AND b) s))
      else if sub = 0x3 then
        within s (getitem (gpio s) x) (\<lambda>a. within s (getitem (gpio s) y) (\<lambda>b.
        set_gpio x (a XOR b) s))
      else if sub = 0x4 then
        within s (getitem (gpio s) x) (\<lambda>a. within s (getitem (gpio s) y) (\<lambda>b.
        let t = a + b in
        bnd (set_gpio 0xF (if t > 0xFF then 1 else 0) s) (\<lambda>s.
        set_gpio x (t AND 0xFF) s)))
      else if sub = 0x5 then
        within s (getitem (gpio s) x) (\<lambda>a. within s (getitem (gpio s) y) (\<lambda>b.
        bnd (set_gpio 0xF (if a > b then 1 else 0) s) (\<lambda>s.
        within s (getitem (gpio s) x) (\<lambda>a. within s (getitem (gpio s) y) (\<lambda>b.
        set_gpio x ((a - b) AND 0xFF) s)))))
      else if sub = 0x6 then
        within s (getitem (gpio s) x) (\<lambda>a.
        bnd (set_gpio 0xF (a AND 1) s) (\<lambda>s.
        within s (getitem (gpio s) x) (\<lambda>a.
        set_gpio x (drop_bit 1 a) s)))
      else if sub = 0x7 then
        within s (getitem (gpio s) y) (\<lambda>b. within s (getitem (gpio s) x) (\<lambda>a.
        bnd (set_gpio 0xF (if b > a then 1 else 0) s) (\<lambda>s.
        within s (getitem (gpio s) y) (\<lambda>b. within s (getitem (gpio s) x) (\<lambda>a.
        set_gpio x ((b - a) AND 0xFF) s)))))
      else if sub = 0xE then
        within s (getitem (gpio s) x) (\<lambda>a.
        bnd (set_gpio 0xF (drop_bit 7 a AND 1) s) (\<lambda>s.
        within s (getitem (gpio s) x) (\<lambda>a.
        set_gpio x (push_bit 1 a AND 0xFF) s)))
      else Inr s)"

definition h_9xy0 :: "chip8_g \<Rightarrow> chip8_g res" where
  "h_9xy0 s =
     (if opcode s AND 0xF \<noteq> 0 then Inr s
      else within s (getitem (gpio s) (vx s)) (\<lambda>a.
           within s (getitem (gpio s) (vy s)) (\<lambda>b. skip_g (a \<noteq> b) s)))"

definition h_Annn :: "chip8_g \<Rightarrow> chip8_g res" where
  "h_Annn s = Inr (s\<lparr>index := opcode s AND 0x0FFF\<rparr>)"

definition h_Bnnn :: "chip8_g \<Rightarrow> chip8_g res" where
  "h_Bnnn s =
     within s (getitem (gpio s) 0) (\<lambda>v0.
       Inr (s\<lparr>pc := ((opcode s AND 0x0FFF) + v0 - 2) AND 0xFFF\<rparr>))"

text \<open>\<open>random.getrandbits(8)\<close> is the argument \<open>r\<close>.\<close>

definition h_Cxkk :: "int \<Rightarrow> chip8_g \<Rightarrow> chip8_g res" where
  "h_Cxkk r s = set_gpio (vx s) (r AND (opcode s AND 0xFF)) s"

text \<open>
  \<open>_Dxyn\<close> (lines 1964-1994) writes the eight tests of a row out one by one; here they are
  the list of the masks with their column offsets.  \<open>buf\<close> is the list \<open>display_buffer\<close>
  itself, changed in place; \<open>collision\<close> is the second component.
\<close>

fun draw_cols_g :: "int \<Rightarrow> int \<Rightarrow> int \<Rightarrow> (int \<times> int) list \<Rightarrow> chip8_g \<times> int
    \<Rightarrow> (chip8_g \<times> int) res" where
  "draw_cols_g sprite base x [] acc = Inr acc"
| "draw_cols_g sprite base x ((m, k) # cols) (s, collision) =
     (if sprite AND m \<noteq> 0 then
        (let idx = base + ((x + k) AND 0x3F)
         in within s (getitem (display_buffer s) idx) (\<lambda>c.
            within s (setitem (display_buffer s) idx (c XOR 1)) (\<lambda>buf.
              draw_cols_g sprite base x cols (s\<lparr>display_buffer := buf\<rparr>, collision OR c))))
      else draw_cols_g sprite base x cols (s, collision))"

fun draw_rows_g :: "int \<Rightarrow> int \<Rightarrow> nat list \<Rightarrow> chip8_g \<times> int \<Rightarrow> (chip8_g \<times> int) res" where
  "draw_rows_g x y [] acc = Inr acc"
| "draw_rows_g x y (row # rows) (s, collision) =
     (if index s + int row \<ge> 4096 then draw_rows_g x y rows (s, collision)
      else within s (getitem (memory s) (index s + int row)) (\<lambda>sprite.
        if sprite = 0 then draw_rows_g x y rows (s, collision)
        else (let base = ((y + int row) AND 0x1F) * 64
              in bnd (draw_cols_g sprite base x
                        [(0x80, 0), (0x40, 1), (0x20, 2), (0x10, 3),
                         (0x08, 4), (0x04, 5), (0x02, 6), (0x01, 7)] (s, collision))
                     (draw_rows_g x y rows))))"

definition h_Dxyn :: "chip8_g \<Rightarrow> chip8_g res" where
  "h_Dxyn s =
     within s (getitem (gpio s) (drop_bit 8 (opcode s) AND 0xF)) (\<lambda>gx.
     within s (getitem (gpio s) (drop_bit 4 (opcode s) AND 0xF)) (\<lambda>gy.
     let x = gx mod 64; y = gy mod 32; n = opcode s AND 0xF
     in bnd (draw_rows_g x y [0..<nat n] (s, 0)) (\<lambda>(s, collision).
        bnd (set_gpio 0xF (if collision \<noteq> 0 then 1 else 0) s) (\<lambda>s.
        Inr (s\<lparr>should_draw := True\<rparr>)))))"

definition h_Exxx :: "chip8_g \<Rightarrow> chip8_g res" where
  "h_Exxx s =
     (let x = drop_bit 8 (opcode s) AND 0xF; kk = opcode s AND 0xFF
      in within s (getitem (gpio s) x) (\<lambda>g.
         let key = g AND 0xF in
         if kk = 0x9E then
           (if key < int (length (key_inputs s))
            then within s (getitem (key_inputs s) key) (\<lambda>k. skip_g (k \<noteq> 0) s)
            else Inr s)
         else if kk = 0xA1 then
           (if key < int (length (key_inputs s))
            then within s (getitem (key_inputs s) key) (\<lambda>k. skip_g (\<not> k \<noteq> 0) s)
            else Inr s)
         else Inr s))"

text \<open>The first index of \<open>enumerate(self.key_inputs)\<close> whose state is truthy.\<close>

fun pressed_key :: "nat \<Rightarrow> int list \<Rightarrow> nat option" where
  "pressed_key i [] = None"
| "pressed_key i (k # ks) = (if k \<noteq> 0 then Some i else pressed_key (Suc i) ks)"

fun store_g :: "nat list \<Rightarrow> chip8_g \<Rightarrow> chip8_g res" where
  "store_g [] s = Inr s"
| "store_g (i # is) s =
     (if index s + int i < 4096
      then within s (getitem (gpio s) (int i)) (\<lambda>g.
           within s (setitem (memory s) (index s + int i) g) (\<lambda>m.
             store_g is (s\<lparr>memory := m\<rparr>)))
      else store_g is s)"

fun load_g :: "nat list \<Rightarrow> chip8_g \<Rightarrow> chip8_g res" where
  "load_g [] s = Inr s"
| "load_g (i # is) s =
     (if index s + int i < 4096
      then within s (getitem (memory s) (index s + int i)) (\<lambda>b.
           bnd (set_gpio (int i) b s) (load_g is))
      else load_g is s)"

definition h_Fxxx :: "chip8_g \<Rightarrow> chip8_g res" where
  "h_Fxxx s =
     (let x = drop_bit 8 (opcode s) AND 0xF; kk = opcode s AND 0xFF
      in
      if kk = 0x07 then set_gpio x (delay_timer s) s
      else if kk = 0x0A then
        (case pressed_key 0 (key_inputs s) of
           None \<Rightarrow> Inr (s\<lparr>pc := (pc s - 2) AND 0xFFF\<rparr>)
         | Some pressed \<Rightarrow> set_gpio x (int pressed) s)
      else if kk = 0x15 then
        within s (getitem (gpio s) x) (\<lambda>g. Inr (s\<lparr>delay_timer := g\<rparr>))
      else if kk = 0x18 then
        within s (getitem (gpio s) x) (\<lambda>g.
          let s = s\<lparr>sound_timer := g\<rparr>
          in Inr (if sound_timer s > 0 \<and> \<not> beeping s then s\<lparr>beeping := True\<rparr> else s))
      else if kk = 0x1E then
        within s (getitem (gpio s) x) (\<lambda>g.
          let new_i = index s + g in
          bnd (set_gpio 0xF (if new_i > 0xFFF then 1 else 0) s) (\<lambda>s.
          Inr (s\<lparr>index := new_i AND 0xFFFF\<rparr>)))
      else if kk = 0x29 then
        within s (getitem (gpio s) x) (\<lambda>g. Inr (s\<lparr>index := (g AND 0xF) * 5\<rparr>))
      else if kk = 0x33 then
        within s (getitem (gpio s) x) (\<lambda>val.
          if index s < 4094 then
            within s (setitem (memory s) (index s) (val div 100)) (\<lambda>m.
            let s = s\<lparr>memory := m\<rparr> in
            within s (setitem (memory s) (index s + 1) ((val div 10) mod 10)) (\<lambda>m.
            let s = s\<lparr>memory := m\<rparr> in
            within s (setitem (memory s) (index s + 2) (val mod 10)) (\<lambda>m.
            Inr (s\<lparr>memory := m\<rparr>))))
          else Inr s)
      else if kk = 0x55 then store_g [0..<nat (x + 1)] s
      else if kk = 0x65 then load_g [0..<nat (x + 1)] s
      else Inr s)"

text \<open>The dictionary \<open>self.funcmap\<close> (lines 1813-1830) and \<open>.get(prefix)\<close>.\<close>

definition funcmap :: "int \<Rightarrow> int \<Rightarrow> (chip8_g \<Rightarrow> chip8_g res) option" where
  "funcmap r prefix =
     (if prefix = 0x1000 then Some h_1nnn
      else if prefix = 0x2000 then Some h_2nnn
      else if prefix = 0x3000 then Some h_3xkk
      else if prefix = 0x4000 then Some h_4xkk
      else if prefix = 0x5000 then Some h_5xy0
      else if prefix = 0x6000 then Some h_6xkk
      else if prefix = 0x7000 then Some h_7xkk
      else if prefix = 0x8000 then Some h_8xxx
      else if prefix = 0x9000 then Some h_9xy0
      else if prefix = 0xA000 then Some h_Annn
      else if prefix = 0xB000 then Some h_Bnnn
      else if prefix = 0xC000 then Some (h_Cxkk r)
      else if prefix = 0xD000 then Some h_Dxyn
      else if prefix = 0xE000 then Some h_Exxx
      else if prefix = 0xF000 then Some h_Fxxx
      else None)"

text \<open>
  \<open>cycle\<close> (lines 1773-1810).  When \<open>funcmap\<close> has no handler the opcode is printed and the
  state is left as it is.
\<close>

definition timers_g :: "chip8_g \<Rightarrow> chip8_g" where
  "timers_g s =
     (let s1 = (if delay_timer s > 0 then s\<lparr>delay_timer := delay_timer s - 1\<rparr> else s)
      in if sound_timer s1 > 0 then s1\<lparr>sound_timer := sound_timer s1 - 1\<rparr> else s1)"

definition cycle :: "int \<Rightarrow> chip8_g \<Rightarrow> chip8_g res" where
  "cycle r s =
     (let s = s\<lparr>cycle_count := cycle_count s + 1\<rparr>
      in if pc s < 0 \<or> pc s + 1 \<ge> int (length (memory s))
         then Inl (PC_out_of_bounds (pc s), s)
         else within s (fetch (memory s) (pc s)) (\<lambda>w.
           let s = s\<lparr>opcode := w\<rparr>;
               s = s\<lparr>vx := drop_bit 8 (opcode s AND 0x0F00)\<rparr>;
               s = s\<lparr>vy := drop_bit 4 (opcode s AND 0x00F0)\<rparr>;
               prefix = opcode s AND 0xF000
           in bnd (if prefix = 0x0000 then
                     (if opcode s = 0x00E0 then h_0E0 s
                      else if opcode s = 0x00EE then h_00EE s
                      else h_0nnn s)
                   else (case funcmap r prefix of Some handler \<Rightarrow> handler s | None \<Rightarrow> Inr s))
                (\<lambda>s. Inr (timers_g (s\<lparr>pc := (pc s + 2) AND 0xFFF\<rparr>)))))"

text \<open>\<open>_cpu_tick\<close> (lines 1738-1745): any exception of \<open>cycle\<close> sets \<open>has_exit\<close>.\<close>

definition cpu_tick :: "int \<Rightarrow> chip8_g \<Rightarrow> chip8_g" where
  "cpu_tick r s =
     (if \<not> has_exit s
      then (case cycle r s of Inr s' \<Rightarrow> s' | Inl (e, s') \<Rightarrow> s'\<lparr>has_exit := True\<rparr>)
      else s)"

section \<open>Drivers and observers\<close>

text \<open>
  \<open>main\<close> of the guarded engine (lines 2055-2063) builds the window and loads the ROM; pyglet
  then calls the scheduled callbacks again and again.  \<open>ticks n\<close> and \<open>cpu_ticks n\<close> are \<open>n\<close>
  calls of the table engine's \<open>tick\<close> and of \<open>_cpu_tick\<close> (with 0 for every random byte);
  \<open>VF\<close> reads register \<open>V[0xF]\<close>.
\<close>

definition main :: "int list \<Rightarrow> error + chip8_g" where
  "main rom = load_rom rom init_g"

fun ticks :: "nat \<Rightarrow> chip8_np \<Rightarrow> error + chip8_np" where
  "ticks 0 s = Inr s"
| "ticks (Suc n) s = bnd (tick_table 0 s) (ticks n)"

fun cpu_ticks :: "nat \<Rightarrow> chip8_g \<Rightarrow> chip8_g" where
  "cpu_ticks 0 s = s"
| "cpu_ticks (Suc n) s = cpu_ticks n (cpu_tick 0 s)"

text \<open>The memory after a ROM of at most \<open>4096 - 0x200\<close> bytes is loaded at \<open>0x200\<close>.\<close>

definition loaded :: "int list \<Rightarrow> int list" where
  "loaded rom = take 512 blank @ rom @ drop (512 + length rom) blank"

text \<open>The state of \<open>cycle\<close> after the fetch, when it has set \<open>opcode\<close>, \<open>vx\<close> and \<open>vy\<close>.\<close>

definition decoded :: "int \<Rightarrow> chip8_g \<Rightarrow> chip8_g" where
  "decoded w s =
     s\<lparr>cycle_count := cycle_count s + 1, opcode := w,
       vx := drop_bit 8 (w AND 0x0F00), vy := drop_bit 4 (w AND 0x00F0)\<rparr>"

text \<open>The instruction that \<open>cycle\<close> would fetch in state \<open>s\<close> is a CALL (\<open>2nnn\<close>).\<close>

definition at_call :: "chip8_g \<Rightarrow> bool" where
  "at_call s =
     (0 \<le> pc s \<and> pc s + 1 < int (length (memory s)) \<and>
      (case fetch (memory s) (pc s) of Inl e \<Rightarrow> False | Inr w \<Rightarrow> w AND 0xF000 = 0x2000))"

definition VF :: "'a chip8_scheme \<Rightarrow> int" where
  "VF s = V s ! 15"

definition is_byte :: "int \<Rightarrow> bool" where
  "is_byte v = (0 \<le> v \<and> v \<le> 255)"

section \<open>Basic facts\<close>

lemma bnd_Inl [simp]: "bnd (Inl e) f = Inl e"
  by (simp add: bnd_def)

lemma bnd_Inr [simp]: "bnd (Inr v) f = f v"
  by (simp add: bnd_def)

lemma within_Inl [simp]: "within s (Inl e) f = Inl (e, s)"
  by (simp add: within_def)

lemma within_Inr [simp]: "within s (Inr v) f = f v"
  by (simp add: within_def)

lemma getitem_nat: "0 \<le> i \<Longrightarrow> i < int (length xs) \<Longrightarrow> getitem xs i = Inr (xs ! nat i)"
  by (simp add: getitem_def norm_index_def)

lemma setitem_nat: "0 \<le> i \<Longrightarrow> i < int (length xs) \<Longrightarrow> setitem xs i v = Inr (xs[nat i := v])"
  by (simp add: setitem_def norm_index_def)

lemma getitem_int: "n < length xs \<Longrightarrow> getitem xs (int n) = Inr (xs ! n)"
  by (simp add: getitem_def norm_index_def)

lemma setitem_int: "n < length xs \<Longrightarrow> setitem xs (int n) v = Inr (xs[n := v])"
  by (simp add: setitem_def norm_index_def)

lemma length_FONTSET: "length FONTSET = 80"
  by (simp add: FONTSET_def)

subsection \<open>Masks\<close>

lemma and_F: "(k::int) AND 0xF = k mod 16"
  using take_bit_eq_mask [of 4 k] by (simp add: take_bit_eq_mod mask_eq_exp_minus_1)

lemma and_FF: "(k::int) AND 0xFF = k mod 256"
  using take_bit_eq_mask [of 8 k] by (simp add: take_bit_eq_mod mask_eq_exp_minus_1)

lemma and_FFF: "(k::int) AND 0xFFF = k mod 4096"
  using take_bit_eq_mask [of 12 k] by (simp add: take_bit_eq_mod mask_eq_exp_minus_1)

lemma and_FFFF: "(k::int) AND 0xFFFF = k mod 65536"
  using take_bit_eq_mask [of 16 k] by (simp add: take_bit_eq_mod mask_eq_exp_minus_1)

lemma and_F000: "(a::int) AND 0xF000 = 4096 * ((a div 4096) mod 16)"
proof -
  have "(0xF000::int) = push_bit 12 (mask 4)"
    by (simp add: mask_eq_exp_minus_1)
  then have "a AND 0xF000 = push_bit 12 (take_bit 4 (drop_bit 12 a))"
    by (auto simp add: bit_eq_iff bit_simps)
  then show ?thesis
    by (simp add: push_bit_eq_mult take_bit_eq_mod drop_bit_eq_div)
qed

lemma nib_range: "0 \<le> (k::int) AND 0xF" "(k::int) AND 0xF < 16"
  by (simp_all add: and_F)

text \<open>A test against a mask of two disjoint parts is a test against each part.\<close>

lemma and_split:
  fixes a p m1 m2 :: int
  assumes "m1 AND m2 = 0"
  shows "(a AND (m1 OR m2) = p) =
         (a AND m1 = p AND m1 \<and> a AND m2 = p AND m2 \<and> p AND (m1 OR m2) = p)"
proof
  assume h: "a AND (m1 OR m2) = p"
  have 1: "p AND m1 = a AND m1"
    unfolding h [symmetric]
    by (simp add: and.assoc bit.conj_disj_distrib2 and.commute [of m2 m1] assms)
  have 2: "p AND m2 = a AND m2"
    unfolding h [symmetric] by (simp add: and.assoc bit.conj_disj_distrib2 assms)
  have 3: "p AND (m1 OR m2) = p"
    unfolding h [symmetric] by (simp add: and.assoc)
  from 1 2 3 show "a AND m1 = p AND m1 \<and> a AND m2 = p AND m2 \<and> p AND (m1 OR m2) = p"
    by simp
next
  assume h: "a AND m1 = p AND m1 \<and> a AND m2 = p AND m2 \<and> p AND (m1 OR m2) = p"
  have "a AND (m1 OR m2) = (a AND m1) OR (a AND m2)"
    by (simp add: bit.conj_disj_distrib)
  also have "\<dots> = (p AND m1) OR (p AND m2)"
    using h by simp
  also have "\<dots> = p AND (m1 OR m2)"
    by (simp add: bit.conj_disj_distrib)
  finally show "a AND (m1 OR m2) = p"
    using h by simp
qed

lemma and_F00F_eq:
  "((a::int) AND 0xF00F = p) =
   (a AND 0xF000 = p AND 0xF000 \<and> a AND 0xF = p AND 0xF \<and> p AND 0xF00F = p)"
  using and_split [of "0xF000" "0xF" a p] by simp

lemma and_F0FF_eq:
  "((a::int) AND 0xF0FF = p) =
   (a AND 0xF000 = p AND 0xF000 \<and> a AND 0xFF = p AND 0xFF \<and> p AND 0xF0FF = p)"
  using and_split [of "0xF000" "0xFF" a p] by simp

lemma and_FFFF_eq:
  "((a::int) AND 0xFFFF = p) =
   (a AND 0xF000 = p AND 0xF000 \<and> a AND 0xFFF = p AND 0xFFF \<and> p AND 0xFFFF = p)"
  using and_split [of "0xF000" "0xFFF" a p] by simp

text \<open>The fields of the instruction word \<open>a x kk\<close> (four bits, four bits, a byte).\<close>

lemma decode_xkk:
  fixes a x kk :: int
  assumes "0 \<le> a" "a < 16" "0 \<le> x" "x < 16" "0 \<le> kk" "kk < 256"
  shows "(4096 * a + 256 * x + kk) AND 0xF000 = 4096 * a"
    and "drop_bit 8 (4096 * a + 256 * x + kk) AND 0xF = x"
    and "(4096 * a + 256 * x + kk) AND 0xFF = kk"
proof -
  have r: "0 \<le> 256 * x + kk" "256 * x + kk < 4096"
    using assms by simp_all
  have "(256 * x + kk + a * 4096) div 4096 = a + (256 * x + kk) div 4096"
    by (rule div_mult_self1) simp
  then have d: "(4096 * a + 256 * x + kk) div 4096 = a"
    using r by (simp add: div_pos_pos_trivial add.commute mult.commute add.left_commute)
  show "(4096 * a + 256 * x + kk) AND 0xF000 = 4096 * a"
    using assms by (simp only: and_F000 d) simp
  have "(kk + (16 * a + x) * 256) div 256 = (16 * a + x) + kk div 256"
    by (rule div_mult_self1) simp
  then have e: "(4096 * a + 256 * x + kk) div 256 = 16 * a + x"
    using assms by (simp add: div_pos_pos_trivial algebra_simps)
  have "(x + a * 16) mod 16 = x mod 16"
    by (rule mod_mult_self1)
  then have f: "(16 * a + x) mod 16 = x"
    using assms by (simp add: algebra_simps)
  show "drop_bit 8 (4096 * a + 256 * x + kk) AND 0xF = x"
    using assms by (simp add: and_F drop_bit_eq_div e)
  have "(kk + (16 * a + x) * 256) mod 256 = kk mod 256"
    by (rule mod_mult_self1)
  then have "(4096 * a + 256 * x + kk) mod 256 = kk"
    using assms by (simp add: algebra_simps)
  then show "(4096 * a + 256 * x + kk) AND 0xFF = kk"
    by (simp only: and_FF)
qed

subsection \<open>Loading\<close>

lemma load_bytes_ok:
  "length mem = 4096 \<Longrightarrow> 0 \<le> i \<Longrightarrow> 512 + i + int (length bs) \<le> 4096 \<Longrightarrow>
   load_bytes mem i bs =
     Inr (take (nat (512 + i)) mem @ bs @ drop (nat (512 + i) + length bs) mem)"
proof (induction bs arbitrary: mem i)
  case Nil
  then show ?case by simp
next
  case (Cons b bs)
  let ?k = "nat (512 + i)"
  have k: "?k < length mem"
    using Cons.prems by simp
  have s: "setitem mem (512 + i) b = Inr (mem[?k := b])"
    using Cons.prems by (simp add: setitem_nat)
  have ih: "load_bytes (mem[?k := b]) (i + 1) bs =
      Inr (take (nat (512 + (i + 1))) (mem[?k := b]) @ bs @
           drop (nat (512 + (i + 1)) + length bs) (mem[?k := b]))"
    using Cons.prems by (intro Cons.IH) simp_all
  have n: "nat (513 + i) = Suc ?k"
    using Cons.prems by simp
  have t: "take (Suc ?k) (mem[?k := b]) = take ?k mem @ [b]"
    using k by (simp add: take_Suc_conv_app_nth)
  show ?case
    by (simp add: s ih n t)
qed

lemma load_bytes_overflow:
  "length mem = 4096 \<Longrightarrow> 0 \<le> i \<Longrightarrow> 512 + i \<le> 4096 \<Longrightarrow> 512 + i + int (length bs) > 4096 \<Longrightarrow>
   load_bytes mem i bs = Inl IndexError"
proof (induction bs arbitrary: mem i)
  case Nil
  then show ?case by simp
next
  case (Cons b bs)
  show ?case
  proof (cases "512 + i = 4096")
    case True
    then show ?thesis
      using Cons.prems by (simp add: setitem_def norm_index_def)
  next
    case False
    then have s: "setitem mem (512 + i) b = Inr (mem[nat (512 + i) := b])"
      using Cons.prems by (simp add: setitem_nat)
    have "load_bytes (mem[nat (512 + i) := b]) (i + 1) bs = Inl IndexError"
      using Cons.prems False by (intro Cons.IH) simp_all
    then show ?thesis
      by (simp add: s)
  qed
qed

lemma load_rom_loop_aux:
  "k = 512 + i \<Longrightarrow> length mem = 4096 \<Longrightarrow>
   load_rom_loop i bs mem =
     Inr (take k mem @ take (4096 - k) bs @ drop (k + length (take (4096 - k) bs)) mem)"
proof (induction bs arbitrary: mem i k)
  case Nil
  then show ?case by simp
next
  case (Cons b bs)
  show ?case
  proof (cases "k < 4096")
    case True
    have k: "k < length mem"
      using Cons.prems True by simp
    have c: "512 + int i < 4096"
      using Cons.prems True by simp
    have s: "setitem mem (512 + int i) b = Inr (mem[k := b])"
      using k Cons.prems by (simp add: setitem_nat nat_add_distrib)
    have ih: "load_rom_loop (Suc i) bs (mem[k := b]) =
        Inr (take (Suc k) (mem[k := b]) @ take (4096 - Suc k) bs @
             drop (Suc k + length (take (4096 - Suc k) bs)) (mem[k := b]))"
      using Cons.prems by (intro Cons.IH) simp_all
    have t: "take (Suc k) (mem[k := b]) = take k mem @ [b]"
      using k by (simp add: take_Suc_conv_app_nth)
    have "4096 - k = Suc (4096 - Suc k)"
      using True by simp
    then have u: "take (4096 - k) (b # bs) = b # take (4096 - Suc k) bs"
      by (simp only: take_Suc_Cons)
    have e: "load_rom_loop i (b # bs) mem = load_rom_loop (Suc i) bs (mem[k := b])"
      using c by (simp add: s)
    show ?thesis
      using True by (subst e, subst ih, subst t, subst u) (auto simp: min_def)
  next
    case False
    have c: "\<not> 512 + int i < 4096"
      using Cons.prems False by simp
    have ih: "load_rom_loop (Suc i) bs mem =
        Inr (take (Suc k) mem @ take (4096 - Suc k) bs @
             drop (Suc k + length (take (4096 - Suc k) bs)) mem)"
      using Cons.prems by (intro Cons.IH) simp_all
    have e: "load_rom_loop i (b # bs) mem = load_rom_loop (Suc i) bs mem"
      using c by simp
    have z: "4096 - k = 0" "4096 - Suc k = 0"
      using False by simp_all
    have m: "take k mem = mem" "take (Suc k) mem = mem"
      using False Cons.prems(2) by simp_all
    have d: "drop k mem = []" "drop (Suc k) mem = []"
      using False Cons.prems(2) by simp_all
    have "load_rom_loop i (b # bs) mem = Inr mem"
      using False Cons.prems(2) by (subst e, subst ih) simp
    moreover have "take k mem @ take (4096 - k) (b # bs) @ drop (k + length (take (4096 - k) (b # bs))) mem = mem"
      using False Cons.prems(2) by simp
    ultimately show ?thesis
      by (simp only:)
  qed
qed

lemma length_blank: "length blank = 4096"
  by (simp add: blank_def length_FONTSET)

lemma length_loaded: "length rom \<le> 3584 \<Longrightarrow> length (loaded rom) = 4096"
  by (simp add: loaded_def length_blank)

lemma loaded_nth: "i < length rom \<Longrightarrow> loaded rom ! (512 + i) = rom ! i"
  by (simp add: loaded_def length_blank nth_append)

lemma fetch_loaded:
  assumes "length rom \<le> 3584" and "Suc i < length rom"
  shows "fetch (loaded rom) (512 + int i) = Inr (push_bit 8 (rom ! i) OR rom ! Suc i)"
proof -
  have a: "getitem (loaded rom) (512 + int i) = Inr (loaded rom ! (512 + i))"
    using assms by (simp add: getitem_nat length_loaded nat_add_distrib)
  have "512 + Suc i < length (loaded rom)"
    using assms by (simp add: length_loaded)
  then have "getitem (loaded rom) (int (512 + Suc i)) = Inr (loaded rom ! (512 + Suc i))"
    by (rule getitem_int)
  moreover have "int (512 + Suc i) = 512 + int i + 1"
    by simp
  ultimately have b: "getitem (loaded rom) (512 + int i + 1) = Inr (loaded rom ! (512 + Suc i))"
    by simp
  have c: "loaded rom ! (512 + i) = rom ! i" "loaded rom ! (512 + Suc i) = rom ! Suc i"
    using assms by (simp_all only: loaded_nth Suc_lessD)
  show ?thesis
    unfolding fetch_def a b c by simp
qed

lemma fetch_loaded_0:
  assumes "length rom \<le> 3584" and "Suc 0 < length rom"
  shows "fetch (loaded rom) 512 = Inr (push_bit 8 (rom ! 0) OR rom ! Suc 0)"
  using fetch_loaded [OF assms] by simp

lemma init_ok:
  assumes "length rom \<le> 3584"
  shows "init rom =
     Inr \<lparr> memory = loaded rom, pc = 0x200, stack = [], should_draw = True,
           vram = replicate 2048 0, V = replicate 16 0, I = 0,
           keys = replicate 16 0, delay = 0, sound = 0 \<rparr>"
  using assms load_bytes_ok [of blank 0 rom]
  by (simp add: init_def length_blank loaded_def)

lemma init_too_large:
  assumes "length rom > 3584"
  shows "init rom = Inl IndexError"
  using assms load_bytes_overflow [of blank 0 rom]
  by (simp add: init_def length_blank)

lemma memory_init_np:
  assumes "length rom \<le> 3584"
  shows "memory (init_np rom) = loaded rom"
proof -
  have "setslice (replicate 4096 0) 0 (int (length FONTSET)) FONTSET = blank"
    by (simp add: setslice_def slice_bound_def blank_def length_FONTSET)
  then show ?thesis
    using assms by (simp add: init_np_def loaded_def setslice_def slice_bound_def length_blank nat_add_distrib)
qed

lemma load_rom_eq:
  "length (memory s) = 4096 \<Longrightarrow>
   load_rom data s =
     Inr (s\<lparr>memory := take 512 (memory s) @ take 3584 data @
                       drop (512 + length (take 3584 data)) (memory s)\<rparr>)"
  using load_rom_loop_aux [of 512 0 "memory s" data] by (simp add: load_rom_def)

lemma main_ok:
  assumes "length rom \<le> 3584"
  shows "main rom = Inr (init_g\<lparr>memory := loaded rom\<rparr>)"
proof -
  have "length (memory init_g) = 4096"
    by (simp add: init_g_def length_blank)
  then show ?thesis
    using assms by (simp add: main_def load_rom_eq) (simp add: init_g_def loaded_def)
qed

section \<open>ADD Vx, kk (claim C4)\<close>

lemma tick_7xkk:
  assumes f: "fetch (memory s) (pc s) = Inr w" and d: "w AND 0xF000 = 0x7000" and l: "length (V s) = 16"
  shows "tick s = Inr (timers (s\<lparr>pc := pc s + 2,
            V := (V s)[nat (drop_bit 8 w AND 0xF) := (V s ! nat (drop_bit 8 w AND 0xF) + (w AND 0xFF)) mod 256]\<rparr>))"
proof -
  have n: "w \<noteq> 0xE0" "w \<noteq> 0xEE" using d by auto
  show ?thesis
    by (simp add: tick_def f execute_def n d and_F00F_eq Let_def set_V_def getitem_nat setitem_nat nib_range l and_FF)
qed

lemma tick_table_7xkk:
  assumes f: "fetch (memory s) (pc s) = Inr w" and d: "w AND 0xF000 = 0x7000" and l: "length (V s) = 16"
  shows "tick_table r s = Inr (s\<lparr>cps_counter := cps_counter s + 1, pc := uint16 (pc s + 2),
            V := (V s)[nat (drop_bit 8 w AND 0xF) := (V s ! nat (drop_bit 8 w AND 0xF) + (w AND 0xFF)) mod 256]\<rparr>)"
  by (simp add: tick_table_def f opcodes_def d and_F00F_eq and_FFFF_eq op_ADD_Vx_kk_def Let_def set_V_def getitem_nat setitem_nat nib_range l and_FF)

text \<open>
  Claim C4, as amended.  For every register index \<open>x\<close> (0-15) and every byte \<open>kk\<close>, executing
  opcode \<open>7xkk\<close> sets \<open>Vx\<close> to \<open>(Vx + kk) mod 256\<close> and leaves every other register
  unchanged, in the plain engine and in the table engine: \<open>VF\<close> is unmodified whenever
  \<open>x \<noteq> 15\<close>, and for \<open>x = 15\<close> it is the destination.
\<close>

theorem add_vx_kk:
  fixes s :: chip8 and t :: chip8_np
  assumes "x < 16" and "0 \<le> kk" and "kk < 256"
    and "w = 0x7000 + 0x100 * int x + kk"
    and "fetch (memory s) (pc s) = Inr w" and "length (V s) = 16"
    and "fetch (memory t) (pc t) = Inr w" and "length (V t) = 16"
  shows "tick s = Inr (timers (s\<lparr>pc := pc s + 2, V := (V s)[x := (V s ! x + kk) mod 256]\<rparr>)) \<and>
         tick_table r t = Inr (t\<lparr>cps_counter := cps_counter t + 1, pc := uint16 (pc t + 2),
                                  V := (V t)[x := (V t ! x + kk) mod 256]\<rparr>)"
proof -
  have w: "w = 4096 * 7 + 256 * int x + kk"
    using assms(4) by simp
  have d: "w AND 0xF000 = 0x7000" "drop_bit 8 w AND 0xF = int x" "w AND 0xFF = kk"
    unfolding w using decode_xkk [of 7 "int x" kk] assms(1-3) by simp_all
  show ?thesis
    using tick_7xkk [OF assms(5) d(1) assms(6)] tick_table_7xkk [OF assms(7) d(1) assms(8), of r]
    by (simp add: d)
qed

text \<open>
  Claim C4 as stated fails for \<open>x = 15\<close>: opcode \<open>7F01\<close> changes \<open>VF\<close> from 0 to 1.
\<close>

theorem add_vx_kk_counterexample:
  "map_sum id VF (init [0x7F, 0x01]) = Inr 0 \<and>
   map_sum id VF (bnd (init [0x7F, 0x01]) tick) = Inr 1 \<and>
   VF (init_np [0x7F, 0x01]) = 0 \<and>
   map_sum id VF (tick_table 0 (init_np [0x7F, 0x01])) = Inr 1"
proof -
  have i: "init [0x7F, 0x01] = Inr \<lparr> memory = loaded [0x7F, 0x01], pc = 0x200, stack = [], should_draw = True,
           vram = replicate 2048 0, V = replicate 16 0, I = 0,
           keys = replicate 16 0, delay = 0, sound = 0 \<rparr>" (is "_ = Inr ?s")
    by (rule init_ok) simp
  have f: "fetch (memory ?s) (pc ?s) = Inr 0x7F01"
    by (simp add: fetch_loaded_0)
  have t: "map_sum id VF (tick ?s) = Inr 1"
    by (subst tick_7xkk [OF f]) (simp_all add: VF_def timers_def)
  have g: "fetch (memory (init_np [0x7F, 0x01])) (pc (init_np [0x7F, 0x01])) = Inr 0x7F01"
    by (simp add: memory_init_np fetch_loaded_0) (simp add: init_np_def fetch_loaded_0)
  have u: "map_sum id VF (tick_table 0 (init_np [0x7F, 0x01])) = Inr 1"
    by (subst tick_table_7xkk [OF g]) (simp_all add: VF_def init_np_def)
  show ?thesis
    using t u by (simp add: i VF_def) (simp add: init_np_def)
qed

text \<open>The theorem at the ROM \<open>7A 05\<close>: \<open>VA\<close> becomes 5.\<close>

theorem add_vx_kk_witness:
  "map_sum id V (bnd (init [0x7A, 0x05]) tick) = Inr ((replicate 16 0)[10 := 5]) \<and>
   map_sum id V (tick_table 0 (init_np [0x7A, 0x05])) = Inr ((replicate 16 0)[10 := 5])"
proof -
  have i: "init [0x7A, 0x05] = Inr \<lparr> memory = loaded [0x7A, 0x05], pc = 0x200, stack = [], should_draw = True,
           vram = replicate 2048 0, V = replicate 16 0, I = 0,
           keys = replicate 16 0, delay = 0, sound = 0 \<rparr>" (is "_ = Inr ?s")
    by (rule init_ok) simp
  have f: "fetch (memory ?s) (pc ?s) = Inr 0x7A05"
    by (simp add: fetch_loaded_0)
  have g: "fetch (memory (init_np [0x7A, 0x05])) (pc (init_np [0x7A, 0x05])) = Inr 0x7A05"
    by (simp add: memory_init_np fetch_loaded_0) (simp add: init_np_def fetch_loaded_0)
  have "tick ?s = Inr (timers (?s\<lparr>pc := pc ?s + 2, V := (V ?s)[10 := (V ?s ! 10 + 5) mod 256]\<rparr>)) \<and>
        tick_table 0 (init_np [0x7A, 0x05]) = Inr ((init_np [0x7A, 0x05])\<lparr>cps_counter := cps_counter (init_np [0x7A, 0x05]) + 1,
            pc := uint16 (pc (init_np [0x7A, 0x05]) + 2),
            V := (V (init_np [0x7A, 0x05]))[10 := (V (init_np [0x7A, 0x05]) ! 10 + 5) mod 256]\<rparr>)"
    by (rule add_vx_kk [where w = "0x7A05", OF _ _ _ _ f _ g]) (simp_all add: init_np_def)
  then show ?thesis
    by (simp add: i timers_def) (simp add: init_np_def)
qed

section \<open>Unknown opcodes (claim C7)\<close>

lemma dispatch_no_match:
  "\<forall>(m, p, h) \<in> set tbl. w AND m \<noteq> p \<Longrightarrow>
   dispatch tbl w s = Inr (s\<lparr>printed := printed s @ [w]\<rparr>)"
  by (induction tbl) auto

lemma uint16_id: "0 \<le> k \<Longrightarrow> k < 65536 \<Longrightarrow> uint16 k = k"
  by (simp add: uint16_def)

text \<open>
  Claim C7.  In the table engine, for every instruction word that matches no pattern of the
  dispatch table, \<open>tick\<close> does not fail: it returns with the PC advanced by 2 and the opcode
  printed as unknown, and registers, memory, stack, timers and framebuffer are unchanged
  (only the cycle counter of the HUD is incremented).  The PC is an \<open>np.uint16\<close>; an
  instruction can be fetched only from an address below 65534.
\<close>

theorem unknown_opcode_skipped:
  assumes "fetch (memory s) (pc s) = Inr w"
    and "\<forall>(m, p, h) \<in> set (opcodes r). w AND m \<noteq> p"
    and "0 \<le> pc s" and "pc s < 65534"
  shows "tick_table r s =
           Inr (s\<lparr>cps_counter := cps_counter s + 1, pc := pc s + 2, printed := printed s @ [w]\<rparr>)"
  using assms by (simp add: tick_table_def dispatch_no_match uint16_id)

text \<open>The theorem at the ROM \<open>B1 23\<close>: the table has no entry for \<open>Bnnn\<close>.\<close>

theorem unknown_opcode_skipped_witness:
  "tick_table 0 (init_np [0xB1, 0x23]) =
     Inr ((init_np [0xB1, 0x23])\<lparr>cps_counter := 1, pc := 0x202, printed := [0xB123]\<rparr>)"
proof -
  have f: "fetch (memory (init_np [0xB1, 0x23])) (pc (init_np [0xB1, 0x23])) = Inr 0xB123"
    by (simp add: memory_init_np fetch_loaded_0) (simp add: init_np_def fetch_loaded_0)
  have n: "\<forall>(m, p, h) \<in> set (opcodes 0). (0xB123 :: int) AND m \<noteq> p"
    by (simp add: opcodes_def)
  have "tick_table 0 (init_np [0xB1, 0x23]) =
     Inr ((init_np [0xB1, 0x23])\<lparr>cps_counter := cps_counter (init_np [0xB1, 0x23]) + 1,
        pc := pc (init_np [0xB1, 0x23]) + 2, printed := printed (init_np [0xB1, 0x23]) @ [0xB123]\<rparr>)"
    by (rule unknown_opcode_skipped [OF f n]) (simp_all add: init_np_def)
  then show ?thesis
    by (simp add: init_np_def)
qed

section \<open>Program load (claim C8)\<close>

text \<open>
  Claim C8, as amended.  Program load copies the ROM bytes into memory from offset \<open>0x200\<close>
  when there are at most \<open>4096 - 0x200 = 3584\<close> of them.  When there are more, \<open>load_rom\<close>
  of the guarded engine copies the first 3584 bytes, drops the rest and reports nothing,
  and \<open>__init__\<close> of the plain engine raises IndexError.
\<close>

theorem rom_load:
  fixes s :: chip8_g
  assumes "length (memory s) = 4096"
  shows "load_rom data s =
           Inr (s\<lparr>memory := (if length data \<le> 3584
                               then take 512 (memory s) @ data @ drop (512 + length data) (memory s)
                               else take 512 (memory s) @ take 3584 data)\<rparr>) \<and>
         init data =
           (if length data \<le> 3584
            then Inr \<lparr> memory = take 512 blank @ data @ drop (512 + length data) blank,
                       pc = 0x200, stack = [], should_draw = True,
                       vram = replicate (64 * 32) 0, V = replicate 16 0, I = 0,
                       keys = replicate 16 0, delay = 0, sound = 0 \<rparr>
            else Inl IndexError)"
  using assms by (simp add: load_rom_eq init_ok init_too_large loaded_def)

text \<open>
  Claim C8 as stated fails: a ROM of 3585 bytes is accepted by \<open>load_rom\<close> without any
  error, its last byte dropped.
\<close>

theorem rom_load_counterexample:
  "load_rom (replicate 3585 7) init_g = Inr (init_g\<lparr>memory := take 512 blank @ replicate 3584 7\<rparr>)"
proof -
  have "length (memory init_g) = 4096"
    by (simp add: init_g_def length_blank)
  then show ?thesis
    by (simp add: load_rom_eq) (simp add: init_g_def length_blank)
qed

text \<open>The theorem at the ROM \<open>01 02 03\<close>.\<close>

theorem rom_load_witness:
  "length (memory init_g) = 4096 \<and>
   load_rom [1, 2, 3] init_g = Inr (init_g\<lparr>memory := take 512 blank @ [1, 2, 3] @ drop 515 blank\<rparr>) \<and>
   map_sum id memory (init [1, 2, 3]) = Inr (take 512 blank @ [1, 2, 3] @ drop 515 blank)"
proof -
  have l: "length (memory init_g) = 4096"
    by (simp add: init_g_def length_blank)
  show ?thesis
    using rom_load [OF l, of "[1, 2, 3]"] l by (simp add: init_g_def)
qed

section \<open>Single steps\<close>

subsection \<open>Single steps of the guarded engine\<close>

lemma timers_g_eq:
  "timers_g s =
     s\<lparr>delay_timer := (if delay_timer s > 0 then delay_timer s - 1 else delay_timer s),
       sound_timer := (if sound_timer s > 0 then sound_timer s - 1 else sound_timer s)\<rparr>"
  by (simp add: timers_g_def Let_def)

lemma timers_eq:
  "timers s =
     s\<lparr>delay := (if delay s > 0 then delay s - 1 else delay s),
       sound := (if sound s > 0 then sound s - 1 else sound s)\<rparr>"
  by (simp add: timers_def Let_def)

lemma cycle_out_of_bounds:
  assumes "pc s < 0 \<or> pc s + 1 \<ge> int (length (memory s))"
  shows "cycle r s = Inl (PC_out_of_bounds (pc s), s\<lparr>cycle_count := cycle_count s + 1\<rparr>)"
  using assms by (auto simp add: cycle_def Let_def)

lemma cycle_fetched:
  assumes "0 \<le> pc s" and "pc s + 1 < int (length (memory s))"
    and "fetch (memory s) (pc s) = Inr w"
  shows "cycle r s =
     bnd (if w AND 0xF000 = 0x0000 then
            (if w = 0x00E0 then h_0E0 (decoded w s)
             else if w = 0x00EE then h_00EE (decoded w s)
             else h_0nnn (decoded w s))
          else (case funcmap r (w AND 0xF000) of
                  Some handler \<Rightarrow> handler (decoded w s) | None \<Rightarrow> Inr (decoded w s)))
       (\<lambda>s. Inr (timers_g (s\<lparr>pc := (pc s + 2) AND 0xFFF\<rparr>)))"
  using assms by (simp add: cycle_def Let_def decoded_def split: option.split)

lemma and_FFF_idem: "((w::int) AND 0xFFF) AND 0xFFF = w AND 0xFFF"
  by (simp add: and.assoc)

lemma cycle_1nnn:
  assumes "0 \<le> pc s" and "pc s + 1 < int (length (memory s))"
    and "fetch (memory s) (pc s) = Inr w" and "w AND 0xF000 = 0x1000"
  shows "cycle r s = Inr (timers_g ((decoded w s)\<lparr>pc := w AND 0xFFF\<rparr>))"
  using assms(4)
  by (simp add: cycle_fetched [OF assms(1-3)] funcmap_def h_1nnn_def decoded_def and_FFF_idem)

lemma cycle_2nnn:
  assumes "0 \<le> pc s" and "pc s + 1 < int (length (memory s))"
    and "fetch (memory s) (pc s) = Inr w" and "w AND 0xF000 = 0x2000"
  shows "cycle r s =
     (if length (stack s) \<ge> 16 then Inl (Stack_overflow_on_CALL, decoded w s)
      else Inr (timers_g ((decoded w s)\<lparr>stack := stack s @ [pc s], pc := w AND 0xFFF\<rparr>)))"
  using assms(4)
  by (simp add: cycle_fetched [OF assms(1-3)] funcmap_def h_2nnn_def decoded_def and_FFF_idem)

lemma cycle_00EE:
  assumes "0 \<le> pc s" and "pc s + 1 < int (length (memory s))"
    and "fetch (memory s) (pc s) = Inr 0x00EE"
  shows "cycle r s =
     (if stack s = [] then Inl (Stack_underflow_on_00EE, decoded 0x00EE s)
      else Inr (timers_g ((decoded 0x00EE s)\<lparr>stack := butlast (stack s),
                                              pc := (last (stack s) + 2) AND 0xFFF\<rparr>)))"
  by (simp add: cycle_fetched [OF assms(1-3)] h_00EE_def decoded_def)

subsection \<open>Single steps of the plain engine\<close>

lemma tick_1nnn:
  assumes f: "fetch (memory s) (pc s) = Inr w" and d: "w AND 0xF000 = 0x1000"
  shows "tick s = Inr (timers (s\<lparr>pc := w AND 0xFFF\<rparr>))"
proof -
  have n: "w \<noteq> 0xE0" "w \<noteq> 0xEE" using d by auto
  show ?thesis
    by (simp add: tick_def f execute_def n d Let_def)
qed

lemma tick_2nnn:
  assumes f: "fetch (memory s) (pc s) = Inr w" and d: "w AND 0xF000 = 0x2000"
  shows "tick s = Inr (timers (s\<lparr>stack := stack s @ [pc s + 2], pc := w AND 0xFFF\<rparr>))"
proof -
  have n: "w \<noteq> 0xE0" "w \<noteq> 0xEE" using d by auto
  show ?thesis
    by (simp add: tick_def f execute_def n d Let_def)
qed

lemma tick_00EE:
  assumes f: "fetch (memory s) (pc s) = Inr 0x00EE"
  shows "tick s =
     (if stack s = [] then Inl IndexError
      else Inr (timers (s\<lparr>pc := last (stack s), stack := butlast (stack s)\<rparr>)))"
  by (simp add: tick_def f execute_def Let_def)

subsection \<open>Single steps of the table engine\<close>

lemma uint16_and_FFF: "uint16 (w AND 0xFFF) = w AND 0xFFF"
  by (simp add: uint16_def and_FFF)

lemma tick_table_2nnn:
  assumes f: "fetch (memory s) (pc s) = Inr w" and d: "w AND 0xF000 = 0x2000"
  shows "tick_table r s =
     (if sp s < 16
      then bnd (setitem (stack s) (sp s) (uint16 (pc s + 2))) (\<lambda>st.
             Inr (s\<lparr>cps_counter := cps_counter s + 1, stack := st, sp := sp s + 1,
                      pc := w AND 0xFFF\<rparr>))
      else Inr (s\<lparr>cps_counter := cps_counter s + 1, pc := w AND 0xFFF\<rparr>))"
  by (simp add: tick_table_def f opcodes_def d and_FFFF_eq op_CALL_def uint16_and_FFF bnd_def split: sum.splits)

lemma tick_table_00EE:
  assumes f: "fetch (memory s) (pc s) = Inr 0x00EE"
  shows "tick_table r s =
     (if sp s = 0 then Inr (s\<lparr>cps_counter := cps_counter s + 1, pc := 0x200\<rparr>)
      else bnd (getitem (stack s) (sp s - 1)) (\<lambda>a.
             Inr (s\<lparr>cps_counter := cps_counter s + 1, sp := sp s - 1, pc := a\<rparr>)))"
  by (simp add: tick_table_def f opcodes_def op_RET_def uint16_def bnd_def split: sum.splits)

lemma pc_timers_g [simp]: "pc (timers_g s) = pc s"
  by (simp add: timers_g_eq)
lemma memory_timers_g [simp]: "memory (timers_g s) = memory s"
  by (simp add: timers_g_eq)
lemma stack_timers_g [simp]: "stack (timers_g s) = stack s"
  by (simp add: timers_g_eq)
lemma has_exit_timers_g [simp]: "has_exit (timers_g s) = has_exit s"
  by (simp add: timers_g_eq)
lemma pc_timers [simp]: "pc (timers s) = pc s"
  by (simp add: timers_eq)
lemma memory_timers [simp]: "memory (timers s) = memory s"
  by (simp add: timers_eq)
lemma stack_timers [simp]: "stack (timers s) = stack s"
  by (simp add: timers_eq)

lemma decoded_simps [simp]:
  "pc (decoded w s) = pc s" "memory (decoded w s) = memory s" "stack (decoded w s) = stack s"
  "has_exit (decoded w s) = has_exit s" "opcode (decoded w s) = w"
  by (simp_all add: decoded_def)

lemma fetch_at_end:
  assumes "length mem = 4096"
  shows "fetch mem 0xFFF = Inl IndexError"
  using assms by (simp add: fetch_def getitem_def norm_index_def)

section \<open>Wrap-around addressing (claim C1)\<close>

text \<open>
  Claim C1, as amended.  Executing \<open>JP 0xFFF\<close> (opcode \<open>1FFF\<close>) sets the PC to \<open>0xFFF\<close>, and
  the next fetch-execute step faults instead of wrapping to address \<open>0x000\<close>: \<open>cycle\<close> of the
  guarded engine raises "PC out of bounds" before it reads memory and \<open>_cpu_tick\<close> then sets
  \<open>has_exit\<close>; \<open>tick\<close> of the plain engine raises IndexError.  The fetch address is not
  masked to 12 bits.
\<close>

theorem jp_end_of_memory:
  fixes s :: chip8_g and t :: chip8
  assumes "length (memory s) = 4096" and "0 \<le> pc s" and "pc s + 1 < 4096"
    and "fetch (memory s) (pc s) = Inr 0x1FFF"
    and "length (memory t) = 4096" and "fetch (memory t) (pc t) = Inr 0x1FFF"
  shows "(\<exists>s1. cycle r s = Inr s1 \<and> pc s1 = 0xFFF \<and>
            cycle r' s1 = Inl (PC_out_of_bounds 0xFFF, s1\<lparr>cycle_count := cycle_count s1 + 1\<rparr>) \<and>
            has_exit (cpu_tick r' s1)) \<and>
         (\<exists>t1. tick t = Inr t1 \<and> pc t1 = 0xFFF \<and> tick t1 = Inl IndexError)"
proof
  let ?s1 = "timers_g ((decoded 0x1FFF s)\<lparr>pc := 0xFFF\<rparr>)"
  have c: "cycle r s = Inr ?s1"
    using cycle_1nnn [of s "0x1FFF" r] assms(1-4) by simp
  have p: "pc ?s1 = 0xFFF"
    by simp
  have m: "length (memory ?s1) = 4096"
    using assms(1) by simp
  have o: "cycle r' ?s1 = Inl (PC_out_of_bounds 0xFFF, ?s1\<lparr>cycle_count := cycle_count ?s1 + 1\<rparr>)"
    using cycle_out_of_bounds [of ?s1 r'] m by (simp only: p) simp
  have "has_exit (cpu_tick r' ?s1)"
    by (cases "has_exit ?s1") (simp_all add: cpu_tick_def o)
  with c p o show "\<exists>s1. cycle r s = Inr s1 \<and> pc s1 = 0xFFF \<and>
            cycle r' s1 = Inl (PC_out_of_bounds 0xFFF, s1\<lparr>cycle_count := cycle_count s1 + 1\<rparr>) \<and>
            has_exit (cpu_tick r' s1)"
    by blast
next
  let ?t1 = "timers (t\<lparr>pc := 0xFFF\<rparr>)"
  have c: "tick t = Inr ?t1"
    using tick_1nnn [of t "0x1FFF"] assms(6) by simp
  have p: "pc ?t1 = 0xFFF"
    by simp
  have "fetch (memory ?t1) (pc ?t1) = Inl IndexError"
    unfolding p using assms(5) by (intro fetch_at_end) simp
  then have "tick ?t1 = Inl IndexError"
    by (simp add: tick_def)
  with c p show "\<exists>t1. tick t = Inr t1 \<and> pc t1 = 0xFFF \<and> tick t1 = Inl IndexError"
    by blast
qed

text \<open>
  Claim C1 as stated fails at the ROM \<open>1F FF\<close>: the second step raises in both engines.
\<close>

theorem jp_end_of_memory_counterexample:
  "bnd (bnd (init [0x1F, 0xFF]) tick) tick = Inl IndexError \<and>
   map_sum id (map_sum fst pc \<circ> cycle 0 \<circ> cpu_tick 0) (main [0x1F, 0xFF])
     = Inr (Inl (PC_out_of_bounds 0xFFF))"
proof -
  let ?t = "\<lparr> memory = loaded [0x1F, 0xFF], pc = 0x200, stack = [], should_draw = True,
           vram = replicate 2048 0, V = replicate 16 0, I = 0,
           keys = replicate 16 0, delay = 0, sound = 0 \<rparr>"
  have i: "init [0x1F, 0xFF] = Inr ?t"
    by (rule init_ok) simp
  have f: "fetch (memory ?t) (pc ?t) = Inr 0x1FFF"
    by (simp add: fetch_loaded_0)
  have t1: "tick ?t = Inr (timers (?t\<lparr>pc := 0xFFF\<rparr>))"
    using tick_1nnn [OF f] by simp
  have "fetch (memory (timers (?t\<lparr>pc := 0xFFF\<rparr>))) (pc (timers (?t\<lparr>pc := 0xFFF\<rparr>))) = Inl IndexError"
    by (simp add: fetch_at_end length_loaded)
  then have t2: "tick (timers (?t\<lparr>pc := 0xFFF\<rparr>)) = Inl IndexError"
    by (simp add: tick_def)
  have a: "bnd (bnd (init [0x1F, 0xFF]) tick) tick = Inl IndexError"
    by (simp only: i t1 t2 bnd_Inr)
  let ?s = "init_g\<lparr>memory := loaded [0x1F, 0xFF]\<rparr>"
  have j: "main [0x1F, 0xFF] = Inr ?s"
    by (rule main_ok) simp
  have g: "fetch (memory ?s) (pc ?s) = Inr 0x1FFF"
    by (simp add: init_g_def fetch_loaded_0)
  let ?s1 = "timers_g ((decoded 0x1FFF ?s)\<lparr>pc := 0xFFF\<rparr>)"
  have c1: "cycle 0 ?s = Inr ?s1"
    using cycle_1nnn [OF _ _ g, of 0] by (simp add: init_g_def length_loaded)
  have e: "\<not> has_exit ?s"
    by (simp add: init_g_def)
  have k: "cpu_tick 0 ?s = ?s1"
    using e by (simp add: cpu_tick_def c1)
  have "length (memory ?s1) = 4096" "pc ?s1 = 0xFFF"
    by (simp_all add: length_loaded)
  then have c2: "cycle 0 ?s1 = Inl (PC_out_of_bounds 0xFFF, ?s1\<lparr>cycle_count := cycle_count ?s1 + 1\<rparr>)"
    using cycle_out_of_bounds [of ?s1 0] by simp
  have b: "map_sum id (map_sum fst pc \<circ> cycle 0 \<circ> cpu_tick 0) (main [0x1F, 0xFF])
     = Inr (Inl (PC_out_of_bounds 0xFFF))"
    by (simp add: j k c2)
  from a b show ?thesis ..
qed

text \<open>The theorem at the ROM \<open>1F FF\<close>: the second \<open>_cpu_tick\<close> ends the emulation.\<close>

theorem jp_end_of_memory_witness:
  "map_sum id (has_exit \<circ> cpu_tick 0 \<circ> cpu_tick 0) (main [0x1F, 0xFF]) = Inr True"
proof -
  let ?t = "\<lparr> memory = loaded [0x1F, 0xFF], pc = 0x200, stack = [], should_draw = True,
           vram = replicate 2048 0, V = replicate 16 0, I = 0,
           keys = replicate 16 0, delay = 0, sound = 0 \<rparr>"
  let ?s = "init_g\<lparr>memory := loaded [0x1F, 0xFF]\<rparr>"
  have j: "main [0x1F, 0xFF] = Inr ?s"
    by (rule main_ok) simp
  have e: "\<not> has_exit ?s"
    by (simp add: init_g_def)
  have "(\<exists>s1. cycle 0 ?s = Inr s1 \<and> pc s1 = 0xFFF \<and>
            cycle 0 s1 = Inl (PC_out_of_bounds 0xFFF, s1\<lparr>cycle_count := cycle_count s1 + 1\<rparr>) \<and>
            has_exit (cpu_tick 0 s1)) \<and>
         (\<exists>t1. tick ?t = Inr t1 \<and> pc t1 = 0xFFF \<and> tick t1 = Inl IndexError)"
    by (rule jp_end_of_memory) (simp_all add: init_g_def length_loaded fetch_loaded_0)
  then obtain s1 where "cycle 0 ?s = Inr s1" and "has_exit (cpu_tick 0 s1)"
    by blast
  then show ?thesis
    using e by (simp add: j cpu_tick_def)
qed

section \<open>Stack discipline (claim C2)\<close>

lemma cpu_tick_halted: "has_exit s \<Longrightarrow> cpu_tick r s = s"
  by (simp add: cpu_tick_def)

lemma cpu_ticks_halted: "has_exit s \<Longrightarrow> cpu_ticks n s = s"
  by (induction n) (simp_all add: cpu_tick_halted)

lemma cpu_ticks_Suc: "cpu_ticks (Suc n) s = cpu_tick 0 (cpu_ticks n s)"
  by (induction n arbitrary: s) simp_all

lemma cpu_tick_2nnn:
  assumes "\<not> has_exit s" and "0 \<le> pc s" and "pc s + 1 < int (length (memory s))"
    and "fetch (memory s) (pc s) = Inr w" and "w AND 0xF000 = 0x2000"
  shows "cpu_tick r s =
           (if length (stack s) < 16
            then timers_g ((decoded w s)\<lparr>stack := stack s @ [pc s], pc := w AND 0xFFF\<rparr>)
            else (decoded w s)\<lparr>has_exit := True\<rparr>)"
  using assms(1) cycle_2nnn [OF assms(2-5), of r] by (simp add: cpu_tick_def not_less)

text \<open>A run of the guarded engine in which every executed instruction is a CALL.\<close>

lemma calls_run:
  assumes "stack s = []" and "\<not> has_exit s" and "n \<le> 16"
    and "\<forall>i<n. at_call (cpu_ticks i s)"
  shows "\<not> has_exit (cpu_ticks n s) \<and> length (stack (cpu_ticks n s)) = n"
  using assms(3,4)
proof (induction n)
  case 0
  then show ?case using assms(1,2) by simp
next
  case (Suc n)
  let ?x = "cpu_ticks n s"
  have ih: "\<not> has_exit ?x" "length (stack ?x) = n"
    using Suc by simp_all
  have "at_call ?x"
    using Suc.prems(2) by simp
  then obtain w where b: "0 \<le> pc ?x" "pc ?x + 1 < int (length (memory ?x))"
    and w: "fetch (memory ?x) (pc ?x) = Inr w" "w AND 0xF000 = 0x2000"
    by (auto simp: at_call_def split: sum.splits)
  have "cpu_tick 0 ?x = timers_g ((decoded w ?x)\<lparr>stack := stack ?x @ [pc ?x], pc := w AND 0xFFF\<rparr>)"
    using cpu_tick_2nnn [OF ih(1) b w, of 0] ih(2) Suc.prems(1) by simp
  then show ?case
    using ih by (simp add: cpu_ticks_Suc del: cpu_ticks.simps)
qed

lemma fetch_call_loop: "fetch (loaded [0x22, 0x00]) 0x200 = Inr 0x2200"
  by (simp add: fetch_loaded_0)

lemma fetch_ret_rom: "fetch (loaded [0x00, 0xEE]) 0x200 = Inr 0x00EE"
  by (simp add: fetch_loaded_0)

lemma call_loop_tick:
  assumes "memory x = loaded [0x22, 0x00]" and "pc x = 0x200"
  shows "memory (cpu_tick 0 x) = loaded [0x22, 0x00] \<and> pc (cpu_tick 0 x) = 0x200"
proof (cases "has_exit x")
  case True
  then show ?thesis using assms by (simp add: cpu_tick_halted)
next
  case False
  have f: "fetch (memory x) (pc x) = Inr 0x2200"
    using assms by (simp add: fetch_call_loop)
  have "cpu_tick 0 x =
           (if length (stack x) < 16
            then timers_g ((decoded 0x2200 x)\<lparr>stack := stack x @ [pc x], pc := 0x2200 AND 0xFFF\<rparr>)
            else (decoded 0x2200 x)\<lparr>has_exit := True\<rparr>)"
    using assms by (intro cpu_tick_2nnn [OF False _ _ f]) (simp_all add: length_loaded)
  then show ?thesis
    using assms by simp
qed

lemma call_loop_ticks:
  assumes "memory x = loaded [0x22, 0x00]" and "pc x = 0x200"
  shows "memory (cpu_ticks n x) = loaded [0x22, 0x00] \<and> pc (cpu_ticks n x) = 0x200"
  using assms by (induction n arbitrary: x) (simp_all add: call_loop_tick)

lemma call_loop_at_call:
  assumes "memory x = loaded [0x22, 0x00]" and "pc x = 0x200"
  shows "at_call x"
  using assms by (simp add: at_call_def fetch_call_loop length_loaded)

lemma table_call_loop:
  assumes "memory t = loaded [0x22, 0x00]" and "pc t = 0x200"
    and "0 \<le> sp t" and "sp t \<le> 16" and "length (stack t) = 16"
  shows "\<exists>t'. ticks n t = Inr t' \<and> sp t' = min 16 (sp t + int n) \<and> pc t' = 0x200"
  using assms
proof (induction n arbitrary: t)
  case 0
  then show ?case by simp
next
  case (Suc n)
  have f: "fetch (memory t) (pc t) = Inr 0x2200"
    using Suc.prems by (simp add: fetch_call_loop)
  note step = tick_table_2nnn [OF f, of 0]
  show ?case
  proof (cases "sp t < 16")
    case True
    let ?t1 = "t\<lparr>cps_counter := cps_counter t + 1, stack := (stack t)[nat (sp t) := uint16 (pc t + 2)],
                 sp := sp t + 1, pc := 0x200\<rparr>"
    have "setitem (stack t) (sp t) (uint16 (pc t + 2)) = Inr ((stack t)[nat (sp t) := uint16 (pc t + 2)])"
      using True Suc.prems by (intro setitem_nat) simp_all
    then have s: "tick_table 0 t = Inr ?t1"
      using step True by simp
    have "\<exists>t'. ticks n ?t1 = Inr t' \<and> sp t' = min 16 (sp ?t1 + int n) \<and> pc t' = 0x200"
      using Suc.prems True by (intro Suc.IH) simp_all
    moreover have "sp ?t1 + int n = sp t + int (Suc n)"
      by simp
    ultimately have "\<exists>t'. ticks n ?t1 = Inr t' \<and> sp t' = min 16 (sp t + int (Suc n)) \<and> pc t' = 0x200"
      by (simp only:)
    then show ?thesis
      by (simp only: ticks.simps s bnd_Inr)
  next
    case False
    let ?t1 = "t\<lparr>cps_counter := cps_counter t + 1, pc := 0x200\<rparr>"
    have s: "tick_table 0 t = Inr ?t1"
      using step False by simp
    have "\<exists>t'. ticks n ?t1 = Inr t' \<and> sp t' = min 16 (sp ?t1 + int n) \<and> pc t' = 0x200"
      using Suc.prems by (intro Suc.IH) simp_all
    moreover have "min 16 (sp ?t1 + int n) = min 16 (sp t + int (Suc n))"
      using False Suc.prems by simp
    ultimately have "\<exists>t'. ticks n ?t1 = Inr t' \<and> sp t' = min 16 (sp t + int (Suc n)) \<and> pc t' = 0x200"
      by (simp only:)
    then show ?thesis
      by (simp only: ticks.simps s bnd_Inr)
  qed
qed

text \<open>
  Claim C2, as amended.  In the guarded engine a CALL (\<open>2nnn\<close>) succeeds while the stack
  holds fewer than 16 addresses and raises "Stack overflow on CALL" when it holds 16, so
  that from an empty stack 16 consecutive CALLs succeed and the 17th fails; a RET (\<open>00EE\<close>)
  with an empty stack raises "Stack underflow on 00EE".  \<open>_cpu_tick\<close> turns both into
  \<open>has_exit\<close>, after which further calls of \<open>_cpu_tick\<close> change nothing.  In the table
  engine neither fails: \<open>op_CALL\<close> at \<open>sp \<ge> 16\<close> jumps without saving the return address,
  and \<open>op_RET\<close> at \<open>sp = 0\<close> sets the PC to \<open>0x200\<close>.
\<close>

theorem call_stack_limits:
  fixes s u p :: chip8_g and t v :: chip8_np
  assumes "\<not> has_exit s" and "0 \<le> pc s" and "pc s + 1 < int (length (memory s))"
    and "fetch (memory s) (pc s) = Inr w" and "w AND 0xF000 = 0x2000"
    and "\<not> has_exit u" and "0 \<le> pc u" and "pc u + 1 < int (length (memory u))"
    and "fetch (memory u) (pc u) = Inr 0x00EE" and "stack u = []"
    and "fetch (memory t) (pc t) = Inr w" and "sp t \<ge> 16"
    and "fetch (memory v) (pc v) = Inr 0x00EE" and "sp v = 0"
    and "stack p = []" and "\<not> has_exit p"
    and "\<forall>i<17. at_call (cpu_ticks i p)"
  shows "cycle r s =
           (if length (stack s) < 16
            then Inr (timers_g ((decoded w s)\<lparr>stack := stack s @ [pc s], pc := w AND 0xFFF\<rparr>))
            else Inl (Stack_overflow_on_CALL, decoded w s)) \<and>
         has_exit (cpu_tick r s) = (length (stack s) \<ge> 16) \<and>
         (length (stack s) \<ge> 16 \<longrightarrow> cpu_ticks n (cpu_tick r s) = cpu_tick r s) \<and>
         cycle r u = Inl (Stack_underflow_on_00EE, decoded 0x00EE u) \<and>
         cpu_tick r u = (decoded 0x00EE u)\<lparr>has_exit := True\<rparr> \<and>
         cpu_ticks n (cpu_tick r u) = cpu_tick r u \<and>
         \<not> has_exit (cpu_ticks 16 p) \<and> length (stack (cpu_ticks 16 p)) = 16 \<and>
         has_exit (cpu_ticks 17 p) \<and>
         tick_table r t = Inr (t\<lparr>cps_counter := cps_counter t + 1, pc := w AND 0xFFF\<rparr>) \<and>
         tick_table r v = Inr (v\<lparr>cps_counter := cps_counter v + 1, pc := 0x200\<rparr>)"
proof -
  have c: "cycle r s =
           (if length (stack s) < 16
            then Inr (timers_g ((decoded w s)\<lparr>stack := stack s @ [pc s], pc := w AND 0xFFF\<rparr>))
            else Inl (Stack_overflow_on_CALL, decoded w s))"
    using cycle_2nnn [OF assms(2-5), of r] by (simp add: not_less)
  have h: "has_exit (cpu_tick r s) = (length (stack s) \<ge> 16)"
    using assms(1) by (simp add: cpu_tick_def c not_less)
  have k: "length (stack s) \<ge> 16 \<longrightarrow> cpu_ticks n (cpu_tick r s) = cpu_tick r s"
    using h by (simp add: cpu_ticks_halted)
  have d: "cycle r u = Inl (Stack_underflow_on_00EE, decoded 0x00EE u)"
    using cycle_00EE [OF assms(7-9), of r] assms(10) by simp
  have e: "cpu_tick r u = (decoded 0x00EE u)\<lparr>has_exit := True\<rparr>"
    using assms(6) by (simp add: cpu_tick_def d)
  have f: "cpu_ticks n (cpu_tick r u) = cpu_tick r u"
    by (simp add: e cpu_ticks_halted)
  have g: "tick_table r t = Inr (t\<lparr>cps_counter := cps_counter t + 1, pc := w AND 0xFFF\<rparr>)"
    using tick_table_2nnn [OF assms(11) assms(5), of r] assms(12) by simp
  have i: "tick_table r v = Inr (v\<lparr>cps_counter := cps_counter v + 1, pc := 0x200\<rparr>)"
    using tick_table_00EE [OF assms(13), of r] assms(14) by simp
  have q: "\<not> has_exit (cpu_ticks 16 p) \<and> length (stack (cpu_ticks 16 p)) = 16"
    using assms(17) by (intro calls_run [OF assms(15,16)]) simp_all
  let ?x = "cpu_ticks 16 p"
  have "at_call ?x"
    using assms(17) by simp
  then obtain w' where b: "0 \<le> pc ?x" "pc ?x + 1 < int (length (memory ?x))"
    and w': "fetch (memory ?x) (pc ?x) = Inr w'" "w' AND 0xF000 = 0x2000"
    by (auto simp: at_call_def split: sum.splits)
  have "cpu_tick 0 ?x = (decoded w' ?x)\<lparr>has_exit := True\<rparr>"
    using cpu_tick_2nnn [OF _ b w', of 0] q by simp
  then have "has_exit (cpu_tick 0 (cpu_ticks 16 p))"
    by simp
  then have l: "has_exit (cpu_ticks 17 p)"
    using cpu_ticks_Suc [of 16 p] by simp
  from c h k d e f g i q l show ?thesis
    by blast
qed

text \<open>
  Claim C2 as stated fails in the table engine: 17 CALLs at the ROM \<open>22 00\<close> (a CALL to
  itself) all return normally, and so does RET at the ROM \<open>00 EE\<close>.
\<close>

theorem call_stack_limits_counterexample:
  "map_sum id sp (ticks 17 (init_np [0x22, 0x00])) = Inr 16 \<and>
   map_sum id pc (ticks 17 (init_np [0x22, 0x00])) = Inr 0x200 \<and>
   map_sum id pc (tick_table 0 (init_np [0x00, 0xEE])) = Inr 0x200"
proof -
  have "\<exists>t'. ticks 17 (init_np [0x22, 0x00]) = Inr t' \<and>
          sp t' = min 16 (sp (init_np [0x22, 0x00]) + int 17) \<and> pc t' = 0x200"
    by (rule table_call_loop) (simp_all add: memory_init_np, simp_all add: init_np_def)
  then obtain t' where "ticks 17 (init_np [0x22, 0x00]) = Inr t'" "sp t' = 16" "pc t' = 0x200"
    by (auto simp: init_np_def)
  then have a: "map_sum id sp (ticks 17 (init_np [0x22, 0x00])) = Inr 16"
    and b: "map_sum id pc (ticks 17 (init_np [0x22, 0x00])) = Inr 0x200"
    by simp_all
  have "fetch (memory (init_np [0x00, 0xEE])) (pc (init_np [0x00, 0xEE])) = Inr 0x00EE"
    by (simp add: memory_init_np fetch_ret_rom) (simp add: init_np_def fetch_ret_rom)
  from tick_table_00EE [OF this, of 0]
  have c: "map_sum id pc (tick_table 0 (init_np [0x00, 0xEE])) = Inr 0x200"
    by (simp add: init_np_def)
  from a b c show ?thesis by simp
qed

text \<open>
  The theorem at the ROMs \<open>22 00\<close> and \<open>00 EE\<close>, once with an empty stack and once with
  the full stack that 16 calls leave.
\<close>

theorem call_stack_limits_witness:
  "\<not> has_exit (cpu_ticks 16 (init_g\<lparr>memory := loaded [0x22, 0x00]\<rparr>)) \<and>
   length (stack (cpu_ticks 16 (init_g\<lparr>memory := loaded [0x22, 0x00]\<rparr>))) = 16 \<and>
   has_exit (cpu_ticks 17 (init_g\<lparr>memory := loaded [0x22, 0x00]\<rparr>)) \<and>
   cpu_ticks 5 (cpu_tick 0 (cpu_ticks 16 (init_g\<lparr>memory := loaded [0x22, 0x00]\<rparr>)))
     = cpu_tick 0 (cpu_ticks 16 (init_g\<lparr>memory := loaded [0x22, 0x00]\<rparr>)) \<and>
   has_exit (cpu_tick 0 (init_g\<lparr>memory := loaded [0x00, 0xEE]\<rparr>)) \<and>
   cpu_ticks 5 (cpu_tick 0 (init_g\<lparr>memory := loaded [0x00, 0xEE]\<rparr>))
     = cpu_tick 0 (init_g\<lparr>memory := loaded [0x00, 0xEE]\<rparr>) \<and>
   map_sum id sp (tick_table 0 ((init_np [0x22, 0x00])\<lparr>sp := 16\<rparr>)) = Inr 16 \<and>
   map_sum id pc (tick_table 0 (init_np [0x00, 0xEE])) = Inr 0x200"
proof -
  let ?s = "init_g\<lparr>memory := loaded [0x22, 0x00]\<rparr>"
  let ?u = "init_g\<lparr>memory := loaded [0x00, 0xEE]\<rparr>"
  let ?t = "(init_np [0x22, 0x00])\<lparr>sp := 16\<rparr>"
  let ?v = "init_np [0x00, 0xEE]"
  have s: "memory ?s = loaded [0x22, 0x00]" "pc ?s = 0x200" "\<not> has_exit ?s" "stack ?s = []"
    by (simp_all add: init_g_def)
  have u: "memory ?u = loaded [0x00, 0xEE]" "pc ?u = 0x200" "\<not> has_exit ?u" "stack ?u = []"
    by (simp_all add: init_g_def)
  have fs: "fetch (memory ?s) (pc ?s) = Inr 0x2200"
    by (simp only: s fetch_call_loop)
  have fu: "fetch (memory ?u) (pc ?u) = Inr 0x00EE"
    by (simp only: u fetch_ret_rom)
  have ft: "fetch (memory ?t) (pc ?t) = Inr 0x2200"
    by (simp add: memory_init_np fetch_call_loop) (simp add: init_np_def fetch_call_loop)
  have fv: "fetch (memory ?v) (pc ?v) = Inr 0x00EE"
    by (simp add: memory_init_np fetch_ret_rom) (simp add: init_np_def fetch_ret_rom)
  have run: "\<forall>i<17. at_call (cpu_ticks i ?s)"
    using call_loop_ticks [OF s(1,2)] by (simp add: call_loop_at_call)
  have bs: "0 \<le> pc ?s" "pc ?s + 1 < int (length (memory ?s))"
    by (simp_all add: s length_loaded)
  have bu: "0 \<le> pc ?u" "pc ?u + 1 < int (length (memory ?u))"
    by (simp_all add: u length_loaded)
  have wd: "(0x2200 :: int) AND 0xF000 = 0x2000"
    by simp
  have spt: "sp ?t \<ge> 16"
    by simp
  have spv: "sp ?v = 0"
    by (simp add: init_np_def)
  note T = call_stack_limits [OF s(3) bs fs wd u(3) bu fu u(4) ft spt fv spv s(4) s(3) run, of 0 5]
  from T have e: "cpu_tick 0 ?u = (decoded 0x00EE ?u)\<lparr>has_exit := True\<rparr>"
    by blast
  from T have g: "tick_table 0 ?t = Inr (?t\<lparr>cps_counter := cps_counter ?t + 1, pc := 0x2200 AND 0xFFF\<rparr>)"
    by blast
  from T have i: "tick_table 0 ?v = Inr (?v\<lparr>cps_counter := cps_counter ?v + 1, pc := 0x200\<rparr>)"
    by blast
  from T have T1: "\<not> has_exit (cpu_ticks 16 ?s)" "length (stack (cpu_ticks 16 ?s)) = 16"
    "has_exit (cpu_ticks 17 ?s)" "cpu_ticks 5 (cpu_tick 0 ?u) = cpu_tick 0 ?u"
    by blast+
  have T2: "has_exit (cpu_tick 0 ?u)"
    "map_sum id sp (tick_table 0 ?t) = Inr 16" "map_sum id pc (tick_table 0 ?v) = Inr 0x200"
    by (simp_all add: e g i)
  let ?x = "cpu_ticks 16 ?s"
  have x: "memory ?x = loaded [0x22, 0x00]" "pc ?x = 0x200"
    using call_loop_ticks [OF s(1,2), of 16] by simp_all
  have fx: "fetch (memory ?x) (pc ?x) = Inr 0x2200"
    by (simp only: x fetch_call_loop)
  have bx: "0 \<le> pc ?x" "pc ?x + 1 < int (length (memory ?x))"
    by (simp_all add: x length_loaded)
  note U = call_stack_limits [OF T1(1) bx fx wd u(3) bu fu u(4) ft spt fv spv s(4) s(3) run, of 0 5]
  from U have "length (stack ?x) \<ge> 16 \<longrightarrow> cpu_ticks 5 (cpu_tick 0 ?x) = cpu_tick 0 ?x"
    by blast
  then have "cpu_ticks 5 (cpu_tick 0 ?x) = cpu_tick 0 ?x"
    using T1(2) by simp
  with T1 T2 show ?thesis
    by (simp only: simp_thms)
qed

end
